theory Spec2Isabelle
  imports
    Complex_Main
    "HOL-Library.Word"
    "HOL-Library.Char_ord"
    "HOL-Library.List_Lexorder"
    "HOL-Library.Multiset"
begin

unbundle bit_operations_syntax

section \<open>Canonical data model (db/types.go)\<close>

text \<open>
  \<^verbatim>\<open>uuid.UUID\<close> values are modelled as natural numbers and \<^verbatim>\<open>time.Time\<close>
  instants as natural numbers (only copied and compared).  \<^verbatim>\<open>CloudProvider\<close> is a
  Go string type.  A \<^verbatim>\<open>float64\<close> confidence is only copied and compared with
  \<^verbatim>\<open><\<close> in the code below; it is modelled by the rational number it denotes
  (NaN and the infinities are outside the model).
\<close>

type_synonym uuid = nat
type_synonym time = nat
type_synonym CloudProvider = string
type_synonym float64 = rat

subsection \<open>Arbitrary-precision decimals\<close>

text \<open>
  \<^verbatim>\<open>decimal.Decimal\<close> (github.com/shopspring/decimal, an external dependency) is a
  pair of an unbounded integer coefficient and a base-10 exponent, denoting
  \<open>value * 10 ^ exp\<close>.  \<^verbatim>\<open>Add\<close>, \<^verbatim>\<open>Sub\<close>, \<^verbatim>\<open>Mul\<close> and the comparisons are exact;
  the operands of \<^verbatim>\<open>Add\<close>, \<^verbatim>\<open>Sub\<close> and \<^verbatim>\<open>Cmp\<close> are first rescaled to the smaller
  exponent.  The exponent is an \<^verbatim>\<open>int32\<close> in the library; its overflow (a panic
  in \<^verbatim>\<open>Mul\<close>) is outside the model.
\<close>

record Decimal =
  dvalue :: int
  dexp :: int

text \<open>\<^verbatim>\<open>big.Int.Quo\<close> truncates towards zero.\<close>

definition Quo :: "int \<Rightarrow> int \<Rightarrow> int" where
  "Quo x y = (if x < 0 then - ((- x) div y) else x div y)"

definition rescale :: "Decimal \<Rightarrow> int \<Rightarrow> Decimal" where
  "rescale d e =
     (if dexp d = e then d
      else if e > dexp d then \<lparr>dvalue = Quo (dvalue d) (10 ^ nat (e - dexp d)), dexp = e\<rparr>
      else \<lparr>dvalue = dvalue d * 10 ^ nat (dexp d - e), dexp = e\<rparr>)"

definition RescalePair :: "Decimal \<Rightarrow> Decimal \<Rightarrow> Decimal \<times> Decimal" where
  "RescalePair d1 d2 =
     (if dexp d1 < dexp d2 then (d1, rescale d2 (dexp d1))
      else if dexp d1 > dexp d2 then (rescale d1 (dexp d2), d2)
      else (d1, d2))"

definition decimal_Zero :: Decimal where
  "decimal_Zero = \<lparr>dvalue = 0, dexp = 1\<rparr>"

definition dec_Add :: "Decimal \<Rightarrow> Decimal \<Rightarrow> Decimal" where
  "dec_Add d d2 = (case RescalePair d d2 of (rd, rd2) \<Rightarrow>
     \<lparr>dvalue = dvalue rd + dvalue rd2, dexp = dexp rd\<rparr>)"

definition dec_Sub :: "Decimal \<Rightarrow> Decimal \<Rightarrow> Decimal" where
  "dec_Sub d d2 = (case RescalePair d d2 of (rd, rd2) \<Rightarrow>
     \<lparr>dvalue = dvalue rd - dvalue rd2, dexp = dexp rd\<rparr>)"

definition dec_Mul :: "Decimal \<Rightarrow> Decimal \<Rightarrow> Decimal" where
  "dec_Mul d d2 = \<lparr>dvalue = dvalue d * dvalue d2, dexp = dexp d + dexp d2\<rparr>"

text \<open>\<^verbatim>\<open>Cmp\<close> returns -1, 0 or 1.\<close>

definition dec_Cmp :: "Decimal \<Rightarrow> Decimal \<Rightarrow> int" where
  "dec_Cmp d d2 = (case RescalePair d d2 of (rd, rd2) \<Rightarrow>
     (if dvalue rd < dvalue rd2 then -1 else if dvalue rd = dvalue rd2 then 0 else 1))"

definition LessThanOrEqual :: "Decimal \<Rightarrow> Decimal \<Rightarrow> bool" where
  "LessThanOrEqual d d2 = (let cmp = dec_Cmp d d2 in cmp = -1 \<or> cmp = 0)"

definition GreaterThan :: "Decimal \<Rightarrow> Decimal \<Rightarrow> bool" where
  "GreaterThan d d2 = (dec_Cmp d d2 = 1)"

definition IsNegative :: "Decimal \<Rightarrow> bool" where
  "IsNegative d = (dvalue d < 0)"

text \<open>The number a decimal denotes.\<close>

definition dec_val :: "Decimal \<Rightarrow> rat" where
  "dec_val d = of_int (dvalue d) * 10 powi (dexp d)"

subsection \<open>Tiers\<close>

record TieredRate =
  tr_Min :: Decimal
  tr_Max :: "Decimal option"  \<comment> \<open>\<^verbatim>\<open>nil\<close> = unlimited\<close>
  tr_Price :: Decimal
  tr_Confidence :: float64

section \<open>Tiered cost (resolver)\<close>

text \<open>
  The body of the \<^verbatim>\<open>for _, tier := range tiers\<close> loop of \<^verbatim>\<open>CalculateTieredCost\<close>,
  threading \<^verbatim>\<open>totalCost\<close>, \<^verbatim>\<open>remaining\<close> and \<^verbatim>\<open>minConfidence\<close>; the \<^verbatim>\<open>break\<close>
  returns the accumulators.
\<close>

fun tier_loop :: "TieredRate list \<Rightarrow> Decimal \<Rightarrow> Decimal \<Rightarrow> float64 \<Rightarrow> Decimal \<times> float64" where
  "tier_loop [] totalCost remaining minConfidence = (totalCost, minConfidence)"
| "tier_loop (tier # tiers) totalCost remaining minConfidence =
     (if LessThanOrEqual remaining decimal_Zero then (totalCost, minConfidence)
      else
        let tierUsage =
              (case tr_Max tier of
                 None \<Rightarrow> remaining
               | Some mx \<Rightarrow>
                   let tierSize = dec_Sub mx (tr_Min tier)
                   in if GreaterThan remaining tierSize then tierSize else remaining);
            tierCost = dec_Mul tierUsage (tr_Price tier);
            totalCost' = dec_Add totalCost tierCost;
            remaining' = dec_Sub remaining tierUsage;
            minConfidence' =
              (if tr_Confidence tier < minConfidence then tr_Confidence tier else minConfidence)
        in tier_loop tiers totalCost' remaining' minConfidence')"

definition CalculateTieredCost :: "Decimal \<Rightarrow> TieredRate list \<Rightarrow> Decimal \<times> float64" where
  "CalculateTieredCost usage tiers =
     (if length tiers = 0 then (decimal_Zero, 0)
      else tier_loop tiers decimal_Zero usage 1)"

text \<open>
  The greedy allocation in the words of the specification, on the numbers the decimals
  denote: tiers are consumed in order while usage remains; a bounded tier takes
  \<open>min remaining (max - min)\<close>, an unbounded tier takes all that remains.
\<close>

fun spec_allocations :: "rat \<Rightarrow> TieredRate list \<Rightarrow> rat list" where
  "spec_allocations remaining [] = []"
| "spec_allocations remaining (tier # tiers) =
     (if remaining \<le> 0 then []
      else
        let a = (case tr_Max tier of
                   None \<Rightarrow> remaining
                 | Some mx \<Rightarrow> min remaining (dec_val mx - dec_val (tr_Min tier)))
        in a # spec_allocations (remaining - a) tiers)"

definition consumed_tiers :: "Decimal \<Rightarrow> TieredRate list \<Rightarrow> TieredRate list" where
  "consumed_tiers usage tiers = take (length (spec_allocations (dec_val usage) tiers)) tiers"

definition spec_cost :: "Decimal \<Rightarrow> TieredRate list \<Rightarrow> rat" where
  "spec_cost usage tiers =
     (\<Sum>(a, t) \<leftarrow> zip (spec_allocations (dec_val usage) tiers) tiers. a * dec_val (tr_Price t))"

definition dec :: "int \<Rightarrow> int \<Rightarrow> Decimal" where
  "dec v e = \<lparr>dvalue = v, dexp = e\<rparr>"

definition example_tiers :: "TieredRate list" where
  "example_tiers =
     [\<lparr>tr_Min = dec 0 0, tr_Max = Some (dec 10 0), tr_Price = dec 10 (-2), tr_Confidence = 1\<rparr>,
      \<lparr>tr_Min = dec 10 0, tr_Max = None, tr_Price = dec 5 (-2), tr_Confidence = 1\<rparr>]"

definition witness_tiers :: "TieredRate list" where
  "witness_tiers =
     [\<lparr>tr_Min = dec 0 0, tr_Max = Some (dec 10 0), tr_Price = dec 10 (-2), tr_Confidence = 9 / 10\<rparr>,
      \<lparr>tr_Min = dec 10 0, tr_Max = None, tr_Price = dec 5 (-2), tr_Confidence = 4 / 5\<rparr>]"


subsection \<open>Rate keys and normalized rates\<close>

text \<open>
  A Go \<^verbatim>\<open>map[string]string\<close> is modelled as an association list holding each key
  once; the order of the list stands for the (unspecified) iteration order.
\<close>

record RateKey =
  rk_ID :: uuid
  rk_Cloud :: CloudProvider
  rk_Service :: string
  rk_ProductFamily :: string
  rk_Region :: string
  rk_Attributes :: "(string \<times> string) list"
  rk_CreatedAt :: time

record NormalizedRate =
  nr_RateKey :: RateKey
  nr_Unit :: string
  nr_Price :: Decimal
  nr_Currency :: string
  nr_Confidence :: float64
  nr_TierMin :: "Decimal option"
  nr_TierMax :: "Decimal option"

section \<open>Content hash (ingestion pipeline)\<close>

subsection \<open>Canonical string of a decimal\<close>

fun nat_to_string :: "nat \<Rightarrow> string" where
  "nat_to_string n =
     (if n < 10 then [char_of (48 + n)]
      else nat_to_string (n div 10) @ [char_of (48 + n mod 10)])"

declare nat_to_string.simps [simp del]

definition int_to_string :: "int \<Rightarrow> string" where
  "int_to_string i = (if i < 0 then ''-'' @ nat_to_string (nat (- i)) else nat_to_string (nat i))"

text \<open>
  \<^verbatim>\<open>Decimal.String()\<close>: the digits of the coefficient with the decimal point placed by
  the exponent, trailing zeros of the fraction trimmed.
\<close>

definition dec_String :: "Decimal \<Rightarrow> string" where
  "dec_String d =
     (if 0 \<le> dexp d then int_to_string (dvalue (rescale d 0))
      else
        let str = nat_to_string (nat \<bar>dvalue d\<bar>);
            e = nat (- dexp d);
            intPart = (if e < length str then take (length str - e) str else ''0'');
            fractionalPart =
              (if e < length str then drop (length str - e) str
               else replicate (e - length str) (CHR ''0'') @ str);
            trimmed = rev (dropWhile (\<lambda>c. c = CHR ''0'') (rev fractionalPart));
            number = (if 0 < length trimmed then intPart @ ''.'' @ trimmed else intPart)
        in if dvalue d < 0 then ''-'' @ number else number)"

subsection \<open>SHA-256 (FIPS 180-4), as \<^verbatim>\<open>crypto/sha256\<close> computes it\<close>

text \<open>
  The round constants and the initial hash value are written in decimal
  (\<open>1116352408 = 0x428a2f98\<close>, \<open>1779033703 = 0x6a09e667\<close>).
\<close>

type_synonym byte = "8 word"

definition K256 :: "32 word list" where
  "K256 =
     [
      1116352408, 1899447441, 3049323471, 3921009573,
      961987163, 1508970993, 2453635748, 2870763221,
      3624381080, 310598401, 607225278, 1426881987,
      1925078388, 2162078206, 2614888103, 3248222580,
      3835390401, 4022224774, 264347078, 604807628,
      770255983, 1249150122, 1555081692, 1996064986,
      2554220882, 2821834349, 2952996808, 3210313671,
      3336571891, 3584528711, 113926993, 338241895,
      666307205, 773529912, 1294757372, 1396182291,
      1695183700, 1986661051, 2177026350, 2456956037,
      2730485921, 2820302411, 3259730800, 3345764771,
      3516065817, 3600352804, 4094571909, 275423344,
      430227734, 506948616, 659060556, 883997877,
      958139571, 1322822218, 1537002063, 1747873779,
      1955562222, 2024104815, 2227730452, 2361852424,
      2428436474, 2756734187, 3204031479, 3329325298]"

definition H256 :: "32 word list" where
  "H256 =
     [
      1779033703, 3144134277, 1013904242, 2773480762,
      1359893119, 2600822924, 528734635, 1541459225]"

definition rotr :: "nat \<Rightarrow> 32 word \<Rightarrow> 32 word" where
  "rotr n x = drop_bit n x OR push_bit (32 - n) x"

definition Ch :: "32 word \<Rightarrow> 32 word \<Rightarrow> 32 word \<Rightarrow> 32 word" where
  "Ch x y z = (x AND y) XOR (NOT x AND z)"

definition Maj :: "32 word \<Rightarrow> 32 word \<Rightarrow> 32 word \<Rightarrow> 32 word" where
  "Maj x y z = (x AND y) XOR (x AND z) XOR (y AND z)"

definition Sigma0 :: "32 word \<Rightarrow> 32 word" where
  "Sigma0 x = rotr 2 x XOR rotr 13 x XOR rotr 22 x"

definition Sigma1 :: "32 word \<Rightarrow> 32 word" where
  "Sigma1 x = rotr 6 x XOR rotr 11 x XOR rotr 25 x"

definition sigma0 :: "32 word \<Rightarrow> 32 word" where
  "sigma0 x = rotr 7 x XOR rotr 18 x XOR drop_bit 3 x"

definition sigma1 :: "32 word \<Rightarrow> 32 word" where
  "sigma1 x = rotr 17 x XOR rotr 19 x XOR drop_bit 10 x"

definition be_word :: "byte list \<Rightarrow> 32 word" where
  "be_word bs = foldl (\<lambda>acc b. push_bit 8 acc OR ucast b) 0 bs"

definition word_bytes :: "32 word \<Rightarrow> byte list" where
  "word_bytes w = [ucast (drop_bit 24 w), ucast (drop_bit 16 w), ucast (drop_bit 8 w), ucast w]"

definition len_bytes :: "nat \<Rightarrow> byte list" where
  "len_bytes n = (let w = (of_nat n :: 64 word) in map (\<lambda>i. ucast (drop_bit (8 * (7 - i)) w)) [0 ..< 8])"

definition sha_pad :: "byte list \<Rightarrow> byte list" where
  "sha_pad msg =
     msg @ [0x80] @ replicate ((119 - length msg mod 64) mod 64) 0 @ len_bytes (8 * length msg)"

function chunks :: "nat \<Rightarrow> 'a list \<Rightarrow> 'a list list" where
  "chunks n xs = (if n = 0 \<or> length xs < n then [] else take n xs # chunks n (drop n xs))"
  by pat_completeness auto
termination
  by (relation "measure (\<lambda>(n, xs). length xs)") auto

declare chunks.simps [simp del]

fun extend_schedule :: "nat \<Rightarrow> 32 word list \<Rightarrow> 32 word list" where
  "extend_schedule 0 w = w"
| "extend_schedule (Suc n) w =
     (let t = length w
      in extend_schedule n
           (w @ [sigma1 (w ! (t - 2)) + w ! (t - 7) + sigma0 (w ! (t - 15)) + w ! (t - 16)]))"

type_synonym sha_state =
  "32 word \<times> 32 word \<times> 32 word \<times> 32 word \<times> 32 word \<times> 32 word \<times> 32 word \<times> 32 word"

definition sha_round :: "sha_state \<Rightarrow> 32 word \<times> 32 word \<Rightarrow> sha_state" where
  "sha_round s kw =
     (case s of (a, b, c, d, e, f, g, h) \<Rightarrow>
        let t1 = h + Sigma1 e + Ch e f g + fst kw + snd kw;
            t2 = Sigma0 a + Maj a b c
        in (t1 + t2, a, b, c, d + t1, e, f, g))"

definition sha_block :: "32 word list \<Rightarrow> byte list \<Rightarrow> 32 word list" where
  "sha_block hs block =
     (let w = extend_schedule 48 (map be_word (chunks 4 block));
          s0 = (hs ! 0, hs ! 1, hs ! 2, hs ! 3, hs ! 4, hs ! 5, hs ! 6, hs ! 7)
      in case foldl sha_round s0 (zip K256 w) of
           (a, b, c, d, e, f, g, h) \<Rightarrow> map2 (+) hs [a, b, c, d, e, f, g, h])"

definition sha256_Sum :: "byte list \<Rightarrow> byte list" where
  "sha256_Sum msg = concat (map word_bytes (foldl sha_block H256 (chunks 64 (sha_pad msg))))"

definition hex_digit :: "nat \<Rightarrow> char" where
  "hex_digit n = (if n < 10 then char_of (48 + n) else char_of (87 + n))"

definition hex_EncodeToString :: "byte list \<Rightarrow> string" where
  "hex_EncodeToString bs = concat (map (\<lambda>b. [hex_digit (unat b div 16), hex_digit (unat b mod 16)]) bs)"

definition string_bytes :: "string \<Rightarrow> byte list" where
  "string_bytes s = map (\<lambda>c. of_nat (of_char c)) s"

subsection \<open>\<^verbatim>\<open>sort.Slice\<close>\<close>

text \<open>
  \<^verbatim>\<open>sort.Slice\<close> runs insertion sort on a slice of at most 12 elements: each element
  in turn is swapped towards the front while it is less than its left neighbour.  The
  sorted prefix is kept reversed in \<open>insert_back\<close>.  On longer slices the library switches
  to pattern-defeating quicksort, which also yields a permutation ordered by the comparison but
  may place elements that compare equal differently; the model uses the insertion sort
  throughout, and is exact up to 12 elements.
\<close>

fun insert_back :: "('a \<Rightarrow> 'a \<Rightarrow> bool) \<Rightarrow> 'a \<Rightarrow> 'a list \<Rightarrow> 'a list" where
  "insert_back lt x [] = [x]"
| "insert_back lt x (y # ys) =
     (if lt x y then y # insert_back lt x ys else x # y # ys)"

definition sort_Slice :: "('a \<Rightarrow> 'a \<Rightarrow> bool) \<Rightarrow> 'a list \<Rightarrow> 'a list" where
  "sort_Slice lt xs = rev (foldl (\<lambda>acc x. insert_back lt x acc) [] xs)"

subsection \<open>\<^verbatim>\<open>rateKeyString\<close> and \<^verbatim>\<open>calculateHash\<close>\<close>

fun strings_Join :: "string list \<Rightarrow> string \<Rightarrow> string" where
  "strings_Join [] sep = []"
| "strings_Join [x] sep = x"
| "strings_Join (x # y # ys) sep = x @ sep @ strings_Join (y # ys) sep"

definition rateKeyString :: "RateKey \<Rightarrow> string" where
  "rateKeyString k =
     (let attrs = sort (map (\<lambda>(k, v). k @ ''='' @ v) (rk_Attributes k))
      in rk_Cloud k @ ''|'' @ rk_Service k @ ''|'' @ rk_ProductFamily k @ ''|'' @ rk_Region k
         @ ''|'' @ strings_Join attrs '','')"

definition hash_input :: "NormalizedRate list \<Rightarrow> string" where
  "hash_input rs =
     concat (map (\<lambda>r. rateKeyString (nr_RateKey r) @ nr_Unit r @ dec_String (nr_Price r)) rs)"

definition calculateHash :: "NormalizedRate list \<Rightarrow> string" where
  "calculateHash rates =
     (let sorted_rates =
            sort_Slice (\<lambda>ri rj. rateKeyString (nr_RateKey ri) < rateKeyString (nr_RateKey rj)) rates
      in hex_EncodeToString (sha256_Sum (string_bytes (hash_input sorted_rates))))"

text \<open>Two tiers of one rate key, as tiered pricing has them.\<close>

definition tier_key :: RateKey where
  "tier_key = \<lparr>rk_ID = 0, rk_Cloud = ''aws'', rk_Service = ''S3'', rk_ProductFamily = [],
     rk_Region = [], rk_Attributes = [], rk_CreatedAt = 0\<rparr>"

definition tier_rate_a :: NormalizedRate where
  "tier_rate_a = \<lparr>nr_RateKey = tier_key, nr_Unit = ''GB'', nr_Price = dec 9 (-2),
     nr_Currency = ''USD'', nr_Confidence = 1, nr_TierMin = Some (dec 0 0),
     nr_TierMax = Some (dec 10240 0)\<rparr>"

definition tier_rate_b :: NormalizedRate where
  "tier_rate_b = \<lparr>nr_RateKey = tier_key, nr_Unit = ''GB'', nr_Price = dec 85 (-3),
     nr_Currency = ''USD'', nr_Confidence = 1, nr_TierMin = Some (dec 10240 0),
     nr_TierMax = None\<rparr>"

section \<open>Persistent store (db/types.go, db/postgres.go and the SQL schema)\<close>

subsection \<open>Errors\<close>

text \<open>
  A Go \<^verbatim>\<open>error\<close> is a message, possibly wrapping a cause (\<^verbatim>\<open>fmt.Errorf("...: %w", err)\<close>).
  Only the constant text of a message is kept; the formatted arguments are not modelled.
\<close>

datatype error = Err string | Wrapped string error

fun Error_string :: "error \<Rightarrow> string" where
  "Error_string (Err m) = m"
| "Error_string (Wrapped m cause) = m @ '': '' @ Error_string cause"

text \<open>An error raised by the driver, the connection or the context (cancellation, deadline).\<close>

definition driver_error :: error where
  "driver_error = Err ''driver: bad connection''"

definition constraint_violation :: "string \<Rightarrow> error" where
  "constraint_violation c = Err (''pq: violates constraint '' @ c)"

subsection \<open>Rows\<close>

record PricingSnapshot =
  ps_ID :: uuid
  ps_Cloud :: CloudProvider
  ps_Region :: string
  ps_ProviderAlias :: string
  ps_Source :: string
  ps_FetchedAt :: time
  ps_ValidFrom :: time
  ps_ValidTo :: "time option"
  ps_Hash :: string
  ps_Version :: string
  ps_IsActive :: bool
  ps_CreatedAt :: time

record PricingRate =
  pr_ID :: uuid
  pr_SnapshotID :: uuid
  pr_RateKeyID :: uuid
  pr_Unit :: string
  pr_Price :: Decimal
  pr_Currency :: string
  pr_Confidence :: float64
  pr_TierMin :: "Decimal option"
  pr_TierMax :: "Decimal option"
  pr_EffectiveDate :: "time option"
  pr_CreatedAt :: time

record ResolvedRate =
  rr_Price :: Decimal
  rr_Currency :: string
  rr_Confidence :: float64
  rr_TierMin :: "Decimal option"
  rr_TierMax :: "Decimal option"
  rr_SnapshotID :: uuid
  rr_Source :: string

text \<open>
  A row of \<^verbatim>\<open>pricing_snapshots\<close>: the twelve columns the Go code inserts and scans, and
  the \<^verbatim>\<open>state\<close> column (\<^verbatim>\<open>TEXT NOT NULL DEFAULT 'pending'\<close>) that only SQL touches.  The
  Go struct has no field for it.
\<close>

record snapshot_row =
  row_snapshot :: PricingSnapshot
  row_state :: string

record database =
  pricing_snapshots :: "snapshot_row list"
  pricing_rate_keys :: "RateKey list"
  pricing_rates :: "PricingRate list"

text \<open>The zero value \<^verbatim>\<open>&PricingSnapshot{}\<close> that the query functions allocate before scanning.\<close>

definition zero_PricingSnapshot :: PricingSnapshot where
  "zero_PricingSnapshot =
     \<lparr>ps_ID = 0, ps_Cloud = [], ps_Region = [], ps_ProviderAlias = [], ps_Source = [],
      ps_FetchedAt = 0, ps_ValidFrom = 0, ps_ValidTo = None, ps_Hash = [], ps_Version = [],
      ps_IsActive = False, ps_CreatedAt = 0\<rparr>"

definition in_tuple :: "CloudProvider \<Rightarrow> string \<Rightarrow> string \<Rightarrow> snapshot_row \<Rightarrow> bool" where
  "in_tuple cloud region alias r =
     (ps_Cloud (row_snapshot r) = cloud \<and> ps_Region (row_snapshot r) = region
      \<and> ps_ProviderAlias (row_snapshot r) = alias)"

subsection \<open>Queries of \<^verbatim>\<open>PostgresStore\<close>\<close>

text \<open>
  Every query function takes a flag \<open>fault\<close>: the driver fails (lost connection, cancelled
  context).  \<^verbatim>\<open>QueryRow(...).Scan\<close> then returns an error other than \<^verbatim>\<open>sql.ErrNoRows\<close>,
  and the function returns its freshly allocated struct together with the error.
  A query without \<^verbatim>\<open>ORDER BY\<close> yields rows in table order in the model.
\<close>

definition GetActiveSnapshot ::
  "bool \<Rightarrow> database \<Rightarrow> CloudProvider \<Rightarrow> string \<Rightarrow> string \<Rightarrow> PricingSnapshot option \<times> error option" where
  "GetActiveSnapshot fault db cloud region alias =
     (if fault then (Some zero_PricingSnapshot, Some driver_error)
      else case find (\<lambda>r. in_tuple cloud region alias r \<and> ps_IsActive (row_snapshot r))
                  (pricing_snapshots db) of
             None \<Rightarrow> (None, None)
           | Some r \<Rightarrow> (Some (row_snapshot r), None))"

text \<open>\<^verbatim>\<open>ORDER BY created_at DESC LIMIT 1\<close>: the newest of the rows, the first of them on a tie.\<close>

fun newest :: "snapshot_row list \<Rightarrow> snapshot_row option" where
  "newest [] = None"
| "newest (r # rs) =
     (case newest rs of
        None \<Rightarrow> Some r
      | Some r' \<Rightarrow>
          if ps_CreatedAt (row_snapshot r) < ps_CreatedAt (row_snapshot r') then Some r' else Some r)"

definition FindSnapshotByHash ::
  "bool \<Rightarrow> database \<Rightarrow> CloudProvider \<Rightarrow> string \<Rightarrow> string \<Rightarrow> string
     \<Rightarrow> PricingSnapshot option \<times> error option" where
  "FindSnapshotByHash fault db cloud region alias hash =
     (if fault then (Some zero_PricingSnapshot, Some driver_error)
      else case newest (filter (\<lambda>r. in_tuple cloud region alias r \<and> ps_Hash (row_snapshot r) = hash)
                         (pricing_snapshots db)) of
             None \<Rightarrow> (None, None)
           | Some r \<Rightarrow> (Some (row_snapshot r), None))"

definition CountRates :: "bool \<Rightarrow> database \<Rightarrow> uuid \<Rightarrow> int \<times> error option" where
  "CountRates fault db snapshotID =
     (if fault then (0, Some driver_error)
      else (int (length (filter (\<lambda>r. pr_SnapshotID r = snapshotID) (pricing_rates db))), None))"

text \<open>
  The join of \<^verbatim>\<open>ResolveRate\<close> and \<^verbatim>\<open>ResolveTieredRates\<close>.  \<^verbatim>\<open>rk.attributes @> $6\<close> is JSON
  containment: every requested pair is among the stored ones.
  \<^verbatim>\<open>ORDER BY pr.tier_min NULLS FIRST\<close> is modelled by a stable sort (rows with equal
  \<^verbatim>\<open>tier_min\<close> stay in table order).
\<close>

definition resolve_join ::
  "database \<Rightarrow> CloudProvider \<Rightarrow> string \<Rightarrow> string \<Rightarrow> string \<Rightarrow> (string \<times> string) list \<Rightarrow> string \<Rightarrow> string
     \<Rightarrow> (snapshot_row \<times> RateKey \<times> PricingRate) list" where
  "resolve_join db cloud service productFamily region attrs unit alias =
     concat (map (\<lambda>ps.
       concat (map (\<lambda>rk.
         map (\<lambda>pr. (ps, rk, pr))
           (filter (\<lambda>pr. pr_SnapshotID pr = ps_ID (row_snapshot ps) \<and> pr_RateKeyID pr = rk_ID rk
                         \<and> pr_Unit pr = unit)
              (pricing_rates db)))
         (filter (\<lambda>rk. rk_Cloud rk = ps_Cloud (row_snapshot ps) \<and> rk_Region rk = ps_Region (row_snapshot ps)
                       \<and> rk_Service rk = service \<and> rk_ProductFamily rk = productFamily
                       \<and> list_all (\<lambda>kv. kv \<in> set (rk_Attributes rk)) attrs)
            (pricing_rate_keys db))))
       (filter (\<lambda>ps. in_tuple cloud region alias ps \<and> ps_IsActive (row_snapshot ps))
          (pricing_snapshots db)))"

definition tier_min_before :: "Decimal option \<Rightarrow> Decimal option \<Rightarrow> bool" where
  "tier_min_before a b =
     (case (a, b) of
        (None, Some y) \<Rightarrow> True
      | (Some x, Some y) \<Rightarrow> dec_Cmp x y = -1
      | _ \<Rightarrow> False)"

definition order_by_tier_min ::
  "(snapshot_row \<times> RateKey \<times> PricingRate) list \<Rightarrow> (snapshot_row \<times> RateKey \<times> PricingRate) list" where
  "order_by_tier_min rows =
     sort_Slice (\<lambda>a b. tier_min_before (pr_TierMin (snd (snd a))) (pr_TierMin (snd (snd b)))) rows"

definition ResolveRate ::
  "bool \<Rightarrow> database \<Rightarrow> CloudProvider \<Rightarrow> string \<Rightarrow> string \<Rightarrow> string \<Rightarrow> (string \<times> string) list \<Rightarrow> string
     \<Rightarrow> string \<Rightarrow> ResolvedRate option \<times> error option" where
  "ResolveRate fault db cloud service productFamily region attrs unit alias =
     (if fault then
        (Some \<lparr>rr_Price = \<lparr>dvalue = 0, dexp = 0\<rparr>, rr_Currency = [], rr_Confidence = 0,
               rr_TierMin = None, rr_TierMax = None, rr_SnapshotID = 0, rr_Source = []\<rparr>,
         Some driver_error)
      else case order_by_tier_min (resolve_join db cloud service productFamily region attrs unit alias) of
             [] \<Rightarrow> (None, None)
           | (ps, rk, pr) # _ \<Rightarrow>
               (Some \<lparr>rr_Price = pr_Price pr, rr_Currency = pr_Currency pr,
                      rr_Confidence = pr_Confidence pr, rr_TierMin = pr_TierMin pr,
                      rr_TierMax = pr_TierMax pr, rr_SnapshotID = ps_ID (row_snapshot ps),
                      rr_Source = ps_Source (row_snapshot ps)\<rparr>, None))"

definition ResolveTieredRates ::
  "bool \<Rightarrow> database \<Rightarrow> CloudProvider \<Rightarrow> string \<Rightarrow> string \<Rightarrow> string \<Rightarrow> (string \<times> string) list \<Rightarrow> string
     \<Rightarrow> string \<Rightarrow> TieredRate list \<times> error option" where
  "ResolveTieredRates fault db cloud service productFamily region attrs unit alias =
     (if fault then ([], Some driver_error)
      else (map (\<lambda>(ps, rk, pr).
                   \<lparr>tr_Min = (case pr_TierMin pr of None \<Rightarrow> \<lparr>dvalue = 0, dexp = 0\<rparr> | Some m \<Rightarrow> m),
                    tr_Max = pr_TierMax pr, tr_Price = pr_Price pr,
                    tr_Confidence = pr_Confidence pr\<rparr>)
              (order_by_tier_min (resolve_join db cloud service productFamily region attrs unit alias)),
            None))"

subsection \<open>Snapshot activation\<close>

text \<open>
  \<^verbatim>\<open>PostgresStore.ActivateSnapshot\<close> runs \<^verbatim>\<open>SELECT activate_snapshot($1)\<close>.  The SQL function,
  as the lifecycle migrations (re)define it: first
  \<^verbatim>\<open>UPDATE ... SET is_active = FALSE, state = 'archived' WHERE is_active = TRUE AND
  cloud = (SELECT cloud ... WHERE id = snapshot_id) AND region = ... AND provider_alias = ...
  AND id != snapshot_id\<close>, then
  \<^verbatim>\<open>UPDATE ... SET is_active = TRUE, state = 'ready' WHERE id = snapshot_id\<close>.  When no row
  has the id, the scalar subqueries are NULL and neither statement matches a row.
\<close>

definition row_of_id :: "database \<Rightarrow> uuid \<Rightarrow> snapshot_row option" where
  "row_of_id db sid = find (\<lambda>r. ps_ID (row_snapshot r) = sid) (pricing_snapshots db)"

definition set_active :: "bool \<Rightarrow> snapshot_row \<Rightarrow> snapshot_row" where
  "set_active b r = r\<lparr>row_snapshot := (row_snapshot r)\<lparr>ps_IsActive := b\<rparr>\<rparr>"

definition others_active :: "snapshot_row \<Rightarrow> uuid \<Rightarrow> snapshot_row \<Rightarrow> bool" where
  "others_active target sid r =
     (ps_IsActive (row_snapshot r)
      \<and> in_tuple (ps_Cloud (row_snapshot target)) (ps_Region (row_snapshot target))
           (ps_ProviderAlias (row_snapshot target)) r
      \<and> ps_ID (row_snapshot r) \<noteq> sid)"

definition activate_snapshot_sql :: "uuid \<Rightarrow> database \<Rightarrow> database" where
  "activate_snapshot_sql snapshot_id db =
     (case row_of_id db snapshot_id of
        None \<Rightarrow> db
      | Some target \<Rightarrow>
          let archived = map (\<lambda>r. if others_active target snapshot_id r
                                   then (set_active False r)\<lparr>row_state := ''archived''\<rparr> else r)
                           (pricing_snapshots db);
              activated = map (\<lambda>r. if ps_ID (row_snapshot r) = snapshot_id
                                    then (set_active True r)\<lparr>row_state := ''ready''\<rparr> else r)
                            archived
          in db\<lparr>pricing_snapshots := activated\<rparr>)"

definition PostgresStore_ActivateSnapshot :: "bool \<Rightarrow> database \<Rightarrow> uuid \<Rightarrow> error option \<times> database" where
  "PostgresStore_ActivateSnapshot fault db sid =
     (if fault then (Some driver_error, db) else (None, activate_snapshot_sql sid db))"

text \<open>
  \<^verbatim>\<open>PostgresTx.ActivateSnapshot\<close> issues two statements of its own on the transaction:
  \<^verbatim>\<open>UPDATE pricing_snapshots SET is_active = FALSE WHERE id IN (SELECT ps2.id FROM
  pricing_snapshots ps2 JOIN pricing_snapshots ps1 ON (same cloud, region, provider_alias)
  WHERE ps1.id = $1 AND ps2.id != $1 AND ps2.is_active = TRUE)\<close>, then
  \<^verbatim>\<open>UPDATE pricing_snapshots SET is_active = TRUE WHERE id = $1\<close>.
  The two flags are the failures of the two statements.
\<close>

definition tx_deactivate_others :: "uuid \<Rightarrow> database \<Rightarrow> database" where
  "tx_deactivate_others sid db =
     (case row_of_id db sid of
        None \<Rightarrow> db
      | Some ps1 \<Rightarrow>
          db\<lparr>pricing_snapshots :=
               map (\<lambda>ps2. if others_active ps1 sid ps2 then set_active False ps2 else ps2)
                 (pricing_snapshots db)\<rparr>)"

definition tx_activate_target :: "uuid \<Rightarrow> database \<Rightarrow> database" where
  "tx_activate_target sid db =
     db\<lparr>pricing_snapshots :=
          map (\<lambda>r. if ps_ID (row_snapshot r) = sid then set_active True r else r)
            (pricing_snapshots db)\<rparr>"

definition PostgresTx_ActivateSnapshot ::
  "bool \<Rightarrow> bool \<Rightarrow> database \<Rightarrow> uuid \<Rightarrow> error option \<times> database" where
  "PostgresTx_ActivateSnapshot fault1 fault2 db sid =
     (if fault1 then (Some driver_error, db)
      else let db1 = tx_deactivate_others sid db
           in if fault2 then (Some driver_error, db1)
              else (None, tx_activate_target sid db1))"

subsection \<open>Inserts of \<^verbatim>\<open>PostgresTx\<close>\<close>

text \<open>
  The constraints of the schema that an insert can violate: primary keys, the unique
  constraints, the \<^verbatim>\<open>CHECK\<close>s and the foreign keys.  A unique constraint never matches on
  a NULL column.  Scale and precision of the \<^verbatim>\<open>NUMERIC\<close> columns are not modelled.
\<close>

definition cloud_check :: "CloudProvider \<Rightarrow> bool" where
  "cloud_check c = (c = ''aws'' \<or> c = ''azure'' \<or> c = ''gcp'')"

definition snapshot_insert_error :: "database \<Rightarrow> PricingSnapshot \<Rightarrow> error option" where
  "snapshot_insert_error db s =
     (if list_ex (\<lambda>r. ps_ID (row_snapshot r) = ps_ID s) (pricing_snapshots db)
        then Some (constraint_violation ''pricing_snapshots_pkey'')
      else if \<not> cloud_check (ps_Cloud s)
        then Some (constraint_violation ''pricing_snapshots_cloud_check'')
      else if list_ex (\<lambda>r. in_tuple (ps_Cloud s) (ps_Region s) (ps_ProviderAlias s) r
                           \<and> ps_Hash (row_snapshot r) = ps_Hash s) (pricing_snapshots db)
        then Some (constraint_violation ''unique_snapshot'')
      else if ps_IsActive s \<and>
              list_ex (\<lambda>r. in_tuple (ps_Cloud s) (ps_Region s) (ps_ProviderAlias s) r
                           \<and> ps_IsActive (row_snapshot r)) (pricing_snapshots db)
        then Some (constraint_violation ''idx_active_snapshot'')
      else None)"

text \<open>
  \<^verbatim>\<open>INSERT INTO pricing_snapshots (id, ..., is_active) VALUES (...)\<close>: \<^verbatim>\<open>state\<close> takes its
  default \<^verbatim>\<open>'pending'\<close> and \<^verbatim>\<open>created_at\<close> its default \<^verbatim>\<open>NOW()\<close>.
\<close>

definition PostgresTx_CreateSnapshot ::
  "bool \<Rightarrow> time \<Rightarrow> database \<Rightarrow> PricingSnapshot \<Rightarrow> error option \<times> database" where
  "PostgresTx_CreateSnapshot fault now db snapshot =
     (if fault then (Some driver_error, db)
      else case snapshot_insert_error db snapshot of
             Some e \<Rightarrow> (Some e, db)
           | None \<Rightarrow>
               (None, db\<lparr>pricing_snapshots := pricing_snapshots db @
                   [\<lparr>row_snapshot = snapshot\<lparr>ps_CreatedAt := now\<rparr>, row_state = ''pending''\<rparr>]\<rparr>))"

definition same_rate_key :: "RateKey \<Rightarrow> RateKey \<Rightarrow> bool" where
  "same_rate_key a b =
     (rk_Cloud a = rk_Cloud b \<and> rk_Service a = rk_Service b
      \<and> rk_ProductFamily a = rk_ProductFamily b \<and> rk_Region a = rk_Region b
      \<and> set (rk_Attributes a) = set (rk_Attributes b))"

text \<open>
  \<^verbatim>\<open>INSERT INTO pricing_rate_keys ... ON CONFLICT (cloud, service, product_family, region,
  attributes) DO UPDATE SET id = pricing_rate_keys.id RETURNING id, created_at\<close>, scanned into
  the key passed in.
\<close>

definition PostgresTx_UpsertRateKey ::
  "bool \<Rightarrow> time \<Rightarrow> database \<Rightarrow> RateKey \<Rightarrow> (error + RateKey) \<times> database" where
  "PostgresTx_UpsertRateKey fault now db key =
     (if fault then (Inl driver_error, db)
      else case find (same_rate_key key) (pricing_rate_keys db) of
             Some existing \<Rightarrow>
               (Inr (key\<lparr>rk_ID := rk_ID existing, rk_CreatedAt := rk_CreatedAt existing\<rparr>), db)
           | None \<Rightarrow>
               if list_ex (\<lambda>k. rk_ID k = rk_ID key) (pricing_rate_keys db)
                 then (Inl (constraint_violation ''pricing_rate_keys_pkey''), db)
               else if \<not> cloud_check (rk_Cloud key)
                 then (Inl (constraint_violation ''pricing_rate_keys_cloud_check''), db)
               else (Inr (key\<lparr>rk_CreatedAt := now\<rparr>),
                     db\<lparr>pricing_rate_keys := pricing_rate_keys db @ [key\<lparr>rk_CreatedAt := now\<rparr>]\<rparr>))"

definition same_numeric :: "Decimal option \<Rightarrow> Decimal option \<Rightarrow> bool" where
  "same_numeric a b = (case (a, b) of (Some x, Some y) \<Rightarrow> dec_Cmp x y = 0 | _ \<Rightarrow> False)"

definition rate_insert_error :: "database \<Rightarrow> PricingRate \<Rightarrow> error option" where
  "rate_insert_error db r =
     (if list_ex (\<lambda>x. pr_ID x = pr_ID r) (pricing_rates db)
        then Some (constraint_violation ''pricing_rates_pkey'')
      else if \<not> list_ex (\<lambda>s. ps_ID (row_snapshot s) = pr_SnapshotID r) (pricing_snapshots db)
        then Some (constraint_violation ''pricing_rates_snapshot_id_fkey'')
      else if \<not> list_ex (\<lambda>k. rk_ID k = pr_RateKeyID r) (pricing_rate_keys db)
        then Some (constraint_violation ''pricing_rates_rate_key_id_fkey'')
      else if \<not> (0 < pr_Confidence r \<and> pr_Confidence r \<le> 1)
        then Some (constraint_violation ''pricing_rates_confidence_check'')
      else if list_ex (\<lambda>x. pr_SnapshotID x = pr_SnapshotID r \<and> pr_RateKeyID x = pr_RateKeyID r
                           \<and> pr_Unit x = pr_Unit r \<and> same_numeric (pr_TierMin x) (pr_TierMin r)
                           \<and> same_numeric (pr_TierMax x) (pr_TierMax r)) (pricing_rates db)
        then Some (constraint_violation ''unique_rate'')
      else None)"

definition PostgresTx_CreateRate ::
  "bool \<Rightarrow> time \<Rightarrow> database \<Rightarrow> PricingRate \<Rightarrow> error option \<times> database" where
  "PostgresTx_CreateRate fault now db rate =
     (if fault then (Some driver_error, db)
      else case rate_insert_error db rate of
             Some e \<Rightarrow> (Some e, db)
           | None \<Rightarrow> (None, db\<lparr>pricing_rates := pricing_rates db @ [rate\<lparr>pr_CreatedAt := now\<rparr>]\<rparr>))"

subsection \<open>Concrete databases\<close>

definition snap :: "uuid \<Rightarrow> string \<Rightarrow> bool \<Rightarrow> PricingSnapshot" where
  "snap sid hash active =
     \<lparr>ps_ID = sid, ps_Cloud = ''aws'', ps_Region = ''us-east-1'', ps_ProviderAlias = ''default'',
      ps_Source = ''strict_ingestion_lifecycle'', ps_FetchedAt = 1, ps_ValidFrom = 1,
      ps_ValidTo = None, ps_Hash = hash, ps_Version = ''1.0'', ps_IsActive = active,
      ps_CreatedAt = 1\<rparr>"

definition a_key :: RateKey where
  "a_key = \<lparr>rk_ID = 10, rk_Cloud = ''aws'', rk_Service = ''AmazonS3'', rk_ProductFamily = ''Storage'',
     rk_Region = ''us-east-1'', rk_Attributes = [(''storage_class'', ''standard'')],
     rk_CreatedAt = 1\<rparr>"

definition a_rate :: "uuid \<Rightarrow> uuid \<Rightarrow> PricingRate" where
  "a_rate sid snapshot_id =
     \<lparr>pr_ID = sid, pr_SnapshotID = snapshot_id, pr_RateKeyID = 10, pr_Unit = ''GB-month'',
      pr_Price = dec 23 (-3), pr_Currency = ''USD'', pr_Confidence = 1, pr_TierMin = None,
      pr_TierMax = None, pr_EffectiveDate = None, pr_CreatedAt = 1\<rparr>"

text \<open>
  A snapshot inserted by a commit flow (\<^verbatim>\<open>state\<close> at its default) with one rate, next to
  the snapshot that is active and ready.
\<close>

definition db_before_activation :: database where
  "db_before_activation =
     \<lparr>pricing_snapshots =
        [\<lparr>row_snapshot = snap 1 ''h1'' True, row_state = ''ready''\<rparr>,
         \<lparr>row_snapshot = snap 2 ''h2'' False, row_state = ''pending''\<rparr>],
      pricing_rate_keys = [a_key],
      pricing_rates = [a_rate 20 1, a_rate 21 2]\<rparr>"

definition db_tx_activated :: database where
  "db_tx_activated =
     \<lparr>pricing_snapshots =
        [\<lparr>row_snapshot = snap 1 ''h1'' False, row_state = ''ready''\<rparr>,
         \<lparr>row_snapshot = snap 2 ''h2'' True, row_state = ''pending''\<rparr>],
      pricing_rate_keys = [a_key],
      pricing_rates = [a_rate 20 1, a_rate 21 2]\<rparr>"

definition db_sql_activated :: database where
  "db_sql_activated =
     \<lparr>pricing_snapshots =
        [\<lparr>row_snapshot = snap 1 ''h1'' False, row_state = ''archived''\<rparr>,
         \<lparr>row_snapshot = snap 2 ''h2'' True, row_state = ''ready''\<rparr>],
      pricing_rate_keys = [a_key],
      pricing_rates = [a_rate 20 1, a_rate 21 2]\<rparr>"

section \<open>Ingestion: validator, backup manager and the world around a run\<close>

subsection \<open>Raw prices, fetchers and normalizers\<close>

record RawPrice =
  rp_SKU :: string
  rp_ServiceCode :: string
  rp_ProductFamily :: string
  rp_Region :: string
  rp_Unit :: string
  rp_PricePerUnit :: string
  rp_Currency :: string
  rp_Attributes :: "(string \<times> string) list"
  rp_TierStart :: "float64 option"
  rp_TierEnd :: "float64 option"
  rp_EffectiveDate :: "time option"

text \<open>
  A \<^verbatim>\<open>PriceFetcher\<close> is what its \<^verbatim>\<open>FetchRegion\<close> returns; \<open>f_IsRealAPI\<close> is \<open>None\<close> when
  the fetcher's type does not implement the optional interface \<^verbatim>\<open>RealAPIFetcher\<close>
  (the type assertion \<^verbatim>\<open>l.fetcher.(RealAPIFetcher)\<close> fails) and \<open>Some b\<close> when it does and
  \<^verbatim>\<open>IsRealAPI()\<close> returns \<open>b\<close>.
\<close>

record PriceFetcher =
  f_Cloud :: CloudProvider
  f_FetchRegion :: "string \<Rightarrow> error + RawPrice list"
  f_IsRealAPI :: "bool option"

type_synonym PriceNormalizer = "RawPrice list \<Rightarrow> error + NormalizedRate list"

subsection \<open>Validator (\<^verbatim>\<open>IngestionValidator\<close>)\<close>

record IngestionContract =
  ic_Cloud :: CloudProvider
  ic_Service :: string
  ic_RequiredDimensions :: "string list"
  ic_MinRateCount :: int

definition contract :: "CloudProvider \<Rightarrow> string \<Rightarrow> string list \<Rightarrow> int \<Rightarrow> IngestionContract" where
  "contract c s ds n =
     \<lparr>ic_Cloud = c, ic_Service = s, ic_RequiredDimensions = ds, ic_MinRateCount = n\<rparr>"

definition DefaultContracts :: "IngestionContract list" where
  "DefaultContracts =
     [contract ''aws'' ''AmazonEC2'' [] 100,
      contract ''aws'' ''AmazonRDS'' [] 50,
      contract ''aws'' ''AmazonS3'' [] 10,
      contract ''aws'' ''AWSLambda'' [] 5,
      contract ''aws'' ''AWSELB'' [] 5,
      contract ''aws'' ''AmazonDynamoDB'' [] 5,
      contract ''azure'' ''Virtual Machines'' [] 100,
      contract ''azure'' ''Storage'' [] 20,
      contract ''gcp'' ''Compute Engine'' [] 100,
      contract ''gcp'' ''Cloud Storage'' [] 10]"

text \<open>
  The validator's \<^verbatim>\<open>contracts\<close> map is modelled by the list of its values; the list order
  stands for the iteration order of the map.
\<close>

record IngestionValidator =
  v_contracts :: "IngestionContract list"
  v_minCoveragePercent :: float64

definition NewIngestionValidator :: IngestionValidator where
  "NewIngestionValidator = \<lparr>v_contracts = DefaultContracts, v_minCoveragePercent = 95\<rparr>"

definition SetMinCoveragePercent :: "float64 \<Rightarrow> IngestionValidator \<Rightarrow> IngestionValidator" where
  "SetMinCoveragePercent pct v = v\<lparr>v_minCoveragePercent := pct\<rparr>"

definition ValidatePricesPositive :: "NormalizedRate list \<Rightarrow> error option" where
  "ValidatePricesPositive rates =
     (case find (\<lambda>r. IsNegative (nr_Price r)) rates of
        Some r \<Rightarrow> Some (Err ''negative price found'')
      | None \<Rightarrow> None)"

definition service_present :: "NormalizedRate list \<Rightarrow> string \<Rightarrow> bool" where
  "service_present rates svc = list_ex (\<lambda>r. rk_Service (nr_RateKey r) = svc) rates"

definition dimension_present :: "NormalizedRate list \<Rightarrow> string \<Rightarrow> string \<Rightarrow> bool" where
  "dimension_present rates svc reqDim =
     list_ex (\<lambda>r. rk_Service (nr_RateKey r) = svc
                   \<and> list_ex (\<lambda>kv. fst kv = reqDim) (rk_Attributes (nr_RateKey r)))
       rates"

fun ValidateDimensionsComplete_loop :: "IngestionContract list \<Rightarrow> NormalizedRate list \<Rightarrow> error option" where
  "ValidateDimensionsComplete_loop [] rates = None"
| "ValidateDimensionsComplete_loop (c # cs) rates =
     (if \<not> service_present rates (ic_Service c) then ValidateDimensionsComplete_loop cs rates
      else case find (\<lambda>reqDim. \<not> dimension_present rates (ic_Service c) reqDim)
                  (ic_RequiredDimensions c) of
             Some reqDim \<Rightarrow> Some (Err ''service missing required dimension'')
           | None \<Rightarrow> ValidateDimensionsComplete_loop cs rates)"

definition ValidateDimensionsComplete :: "IngestionValidator \<Rightarrow> NormalizedRate list \<Rightarrow> error option" where
  "ValidateDimensionsComplete v rates = ValidateDimensionsComplete_loop (v_contracts v) rates"

text \<open>
  \<^verbatim>\<open>coveragePercent := float64(newCount) / float64(prevCount) * 100\<close>: the division and the
  multiplication are modelled exactly (no rounding to the nearest \<^verbatim>\<open>float64\<close>).
\<close>

definition ValidateCoverageNotDecreased :: "IngestionValidator \<Rightarrow> int \<Rightarrow> int \<Rightarrow> error option" where
  "ValidateCoverageNotDecreased v newCount prevCount =
     (if newCount = 0 then Some (Err ''new snapshot has 0 rates'')
      else
        let coveragePercent = (of_int newCount / of_int prevCount * 100 :: rat)
        in if coveragePercent < v_minCoveragePercent v then Some (Err ''coverage decreased'')
           else None)"

definition ValidateAll :: "IngestionValidator \<Rightarrow> NormalizedRate list \<Rightarrow> int \<Rightarrow> error option" where
  "ValidateAll v rates prevRateCount =
     (case ValidatePricesPositive rates of
        Some e \<Rightarrow> Some e
      | None \<Rightarrow>
          (case ValidateDimensionsComplete v rates of
             Some e \<Rightarrow> Some e
           | None \<Rightarrow>
               if 0 < prevRateCount
               then ValidateCoverageNotDecreased v (int (length rates)) prevRateCount
               else None))"

subsection \<open>Files\<close>

record SnapshotBackup =
  sb_Provider :: CloudProvider
  sb_Region :: string
  sb_Alias :: string
  sb_Timestamp :: time
  sb_ContentHash :: string
  sb_RateCount :: int
  sb_SchemaVersion :: string
  sb_Rates :: "NormalizedRate list"

text \<open>
  What a file holds: a gzip-compressed JSON backup document, the gzip-compressed JSON
  lines of a temp file, or bytes that decode to neither.  The JSON encoding of a document
  and its decoding are taken to be inverse to each other.
\<close>

datatype disk_file = BackupFile SnapshotBackup | TempFile "NormalizedRate list" | Garbage

text \<open>
  What a call of \<^verbatim>\<open>WriteBackup\<close> meets on the disk: \<^verbatim>\<open>os.MkdirAll\<close> fails,
  \<^verbatim>\<open>os.Create\<close> fails, \<^verbatim>\<open>encoder.Encode\<close> fails, or the call returns the path and the
  file then holds the given content (the deferred \<^verbatim>\<open>Close\<close> calls drop their errors, so
  the content need not be the document that was encoded).
\<close>

datatype write_outcome = MkdirFails | CreateFails | EncodeFails | Stored disk_file

subsection \<open>The world a run acts on\<close>

text \<open>
  The trace records every call that leaves the process; "no fetch", "no database access"
  and "opens no transaction" are properties of the trace.
\<close>

datatype event =
    EvFetchRegion string
  | EvStoreQuery string
  | EvBeginTx
  | EvTxExec string
  | EvCommit
  | EvRollback
  | EvDiskWrite string
  | EvDiskRead string
  | EvDiskRemove string

fun is_db_event :: "event \<Rightarrow> bool" where
  "is_db_event (EvStoreQuery _) = True"
| "is_db_event EvBeginTx = True"
| "is_db_event (EvTxExec _) = True"
| "is_db_event EvCommit = True"
| "is_db_event EvRollback = True"
| "is_db_event _ = False"

datatype tx_status = TxOpen | TxCommitted | TxRolledBack | TxCommitFailed

text \<open>
  \<open>w_db\<close> is the committed content of the tables, which every reader sees; \<open>w_tx\<close> is the
  status of the transaction the run began, if any; \<open>w_uuid\<close> is the next value of
  \<^verbatim>\<open>uuid.New()\<close> (fresh identifiers are drawn from a counter); \<open>w_clock\<close> is what
  \<^verbatim>\<open>time.Now()\<close> returns (the clock does not advance during a run).
\<close>

record world =
  w_db :: database
  w_tx :: "tx_status option"
  w_disk :: "(string \<times> disk_file) list"
  w_trace :: "event list"
  w_uuid :: uuid
  w_clock :: time

text \<open>Injected failures of the driver, one flag per call (the loop calls by rate index).\<close>

record faults =
  ft_GetActiveSnapshot :: bool
  ft_CountRates :: bool
  ft_FindSnapshotByHash :: bool
  ft_BeginTx :: bool
  ft_CreateSnapshot :: bool
  ft_UpsertRateKey :: "nat \<Rightarrow> bool"
  ft_CreateRate :: "nat \<Rightarrow> bool"
  ft_Deactivate :: bool
  ft_Activate :: bool
  ft_Commit :: bool

record env =
  e_fetcher :: PriceFetcher
  e_normalizer :: PriceNormalizer
  e_faults :: faults
  e_write_backup :: "SnapshotBackup \<Rightarrow> write_outcome"
  e_create_temp_fails :: bool
  e_Format :: "time \<Rightarrow> string"

definition emit :: "event \<Rightarrow> world \<Rightarrow> world" where
  "emit ev w = w\<lparr>w_trace := w_trace w @ [ev]\<rparr>"

definition uuid_New :: "world \<Rightarrow> uuid \<times> world" where
  "uuid_New w = (w_uuid w, w\<lparr>w_uuid := Suc (w_uuid w)\<rparr>)"

subsection \<open>Backup manager\<close>

text \<open>\<^verbatim>\<open>filepath.Join\<close>, without the cleaning of the joined path.\<close>

definition filepath_Join :: "string \<Rightarrow> string \<Rightarrow> string" where
  "filepath_Join a b = a @ ''/'' @ b"

definition strings_HasSuffix :: "string \<Rightarrow> string \<Rightarrow> bool" where
  "strings_HasSuffix s suffix =
     (length suffix \<le> length s \<and> drop (length s - length suffix) s = suffix)"

definition WriteBackup :: "env \<Rightarrow> string \<Rightarrow> SnapshotBackup \<Rightarrow> world \<Rightarrow> (error + string) \<times> world" where
  "WriteBackup env baseDir backup w =
     (let providerDir = filepath_Join baseDir (sb_Provider backup);
          filename = sb_Region backup @ ''_'' @ e_Format env (sb_Timestamp backup) @ ''.json.gz'';
          fullPath = filepath_Join providerDir filename;
          w1 = emit (EvDiskWrite fullPath) w
      in case e_write_backup env backup of
           MkdirFails \<Rightarrow> (Inl (Wrapped ''failed to create backup directory'' (Err ''mkdir'')), w1)
         | CreateFails \<Rightarrow> (Inl (Wrapped ''failed to create backup file'' (Err ''open'')), w1)
         | EncodeFails \<Rightarrow>
             (Inl (Wrapped ''failed to write backup'' (Err ''write'')),
              w1\<lparr>w_disk := (fullPath, Garbage) # w_disk w1\<rparr>)
         | Stored content \<Rightarrow> (Inr fullPath, w1\<lparr>w_disk := (fullPath, content) # w_disk w1\<rparr>))"

definition ValidateBackup :: "SnapshotBackup \<Rightarrow> error option" where
  "ValidateBackup backup =
     (if sb_Provider backup = [] then Some (Err ''backup missing provider'')
      else if sb_Region backup = [] then Some (Err ''backup missing region'')
      else if sb_ContentHash backup = [] then Some (Err ''backup missing content hash'')
      else if sb_RateCount backup = 0 then Some (Err ''backup has 0 rates'')
      else if int (length (sb_Rates backup)) \<noteq> sb_RateCount backup
        then Some (Err ''backup rate count mismatch'')
      else if calculateHash (sb_Rates backup) \<noteq> sb_ContentHash backup
        then Some (Err ''backup content hash mismatch'')
      else None)"

definition ReadBackup :: "string \<Rightarrow> world \<Rightarrow> (error + SnapshotBackup) \<times> world" where
  "ReadBackup path w =
     (let w1 = emit (EvDiskRead path) w
      in case map_of (w_disk w1) path of
           None \<Rightarrow> (Inl (Wrapped ''failed to open backup file'' (Err ''no such file'')), w1)
         | Some (BackupFile backup) \<Rightarrow>
             if \<not> strings_HasSuffix path ''.gz''
             then (Inl (Wrapped ''failed to decode backup'' (Err ''invalid character'')), w1)
             else (case ValidateBackup backup of
                     Some e \<Rightarrow> (Inl (Wrapped ''backup validation failed'' e), w1)
                   | None \<Rightarrow> (Inr backup, w1))
         | Some _ \<Rightarrow> (Inl (Wrapped ''failed to decode backup'' (Err ''invalid character'')), w1))"

subsection \<open>Transactions\<close>

text \<open>
  \<^verbatim>\<open>BeginTx\<close> hands out a transaction working on a private copy of the tables; \<^verbatim>\<open>Commit\<close>
  publishes the copy, \<^verbatim>\<open>Rollback\<close> drops it.  \<^verbatim>\<open>Rollback\<close> on a transaction that is no
  longer open changes nothing (\<^verbatim>\<open>sql.ErrTxDone\<close>).
\<close>

definition BeginTx :: "bool \<Rightarrow> world \<Rightarrow> (error + database) \<times> world" where
  "BeginTx fault w =
     (if fault then (Inl driver_error, emit EvBeginTx w)
      else (Inr (w_db w), emit EvBeginTx (w\<lparr>w_tx := Some TxOpen\<rparr>)))"

definition Tx_Commit :: "bool \<Rightarrow> database \<Rightarrow> world \<Rightarrow> error option \<times> world" where
  "Tx_Commit fault txdb w =
     (if fault then (Some driver_error, emit EvCommit (w\<lparr>w_tx := Some TxCommitFailed\<rparr>))
      else (None, emit EvCommit (w\<lparr>w_db := txdb, w_tx := Some TxCommitted\<rparr>)))"

definition Tx_Rollback :: "world \<Rightarrow> world" where
  "Tx_Rollback w =
     emit EvRollback (if w_tx w = Some TxOpen then w\<lparr>w_tx := Some TxRolledBack\<rparr> else w)"

text \<open>
  The loop \<^verbatim>\<open>for _, nr := range rates\<close> of the three commit functions: a fresh id for the
  key, \<^verbatim>\<open>tx.UpsertRateKey\<close>, then \<^verbatim>\<open>tx.CreateRate\<close> with the returned key id.  It stops at
  the first error and says which of the two calls failed.
\<close>

datatype commit_step = StepUpsertRateKey | StepCreateRate

fun insert_rates ::
  "faults \<Rightarrow> uuid \<Rightarrow> nat \<Rightarrow> NormalizedRate list \<Rightarrow> database \<Rightarrow> world
     \<Rightarrow> (commit_step \<times> error) option \<times> database \<times> world" where
  "insert_rates ft snapshotID i [] txdb w = (None, txdb, w)"
| "insert_rates ft snapshotID i (nr # rest) txdb w =
     (case uuid_New w of (keyID, w1) \<Rightarrow>
      case PostgresTx_UpsertRateKey (ft_UpsertRateKey ft i) (w_clock w1) txdb
             ((nr_RateKey nr)\<lparr>rk_ID := keyID\<rparr>) of
        (Inl e, txdb1) \<Rightarrow> (Some (StepUpsertRateKey, e), txdb1, emit (EvTxExec ''UpsertRateKey'') w1)
      | (Inr key, txdb1) \<Rightarrow>
          (case uuid_New (emit (EvTxExec ''UpsertRateKey'') w1) of (rateID, w2) \<Rightarrow>
           case PostgresTx_CreateRate (ft_CreateRate ft i) (w_clock w2) txdb1
                  \<lparr>pr_ID = rateID, pr_SnapshotID = snapshotID, pr_RateKeyID = rk_ID key,
                   pr_Unit = nr_Unit nr, pr_Price = nr_Price nr, pr_Currency = nr_Currency nr,
                   pr_Confidence = nr_Confidence nr, pr_TierMin = nr_TierMin nr,
                   pr_TierMax = nr_TierMax nr, pr_EffectiveDate = None, pr_CreatedAt = 0\<rparr> of
             (Some e, txdb2) \<Rightarrow> (Some (StepCreateRate, e), txdb2, emit (EvTxExec ''CreateRate'') w2)
           | (None, txdb2) \<Rightarrow>
               insert_rates ft snapshotID (Suc i) rest txdb2 (emit (EvTxExec ''CreateRate'') w2)))"

section \<open>Strict lifecycle (\<^verbatim>\<open>Lifecycle\<close>)\<close>

datatype IngestionPhase =
    PhaseInit | PhaseFetching | PhaseNormalizing | PhaseValidating | PhaseStaging
  | PhaseBackedUp | PhaseCommitting | PhaseActive | PhaseFailed

record LifecycleState =
  ls_Phase :: IngestionPhase
  ls_Provider :: CloudProvider
  ls_Region :: string
  ls_Alias :: string
  ls_Environment :: string
  ls_RawPrices :: "RawPrice list"
  ls_Normalized :: "NormalizedRate list"
  ls_ContentHash :: string
  ls_BackupPath :: string
  ls_BackupHash :: string
  ls_BackupVerified :: bool
  ls_SnapshotID :: "uuid option"
  ls_StartTime :: time
  ls_Errors :: "string list"

record LifecycleConfig =
  lc_Provider :: CloudProvider
  lc_Region :: string
  lc_Alias :: string
  lc_Environment :: string
  lc_BackupDir :: string
  lc_DryRun :: bool
  lc_AllowMockPricing :: bool
  lc_MinCoverage :: float64
  lc_Timeout :: nat

definition DefaultLifecycleConfig :: LifecycleConfig where
  "DefaultLifecycleConfig =
     \<lparr>lc_Provider = [], lc_Region = [], lc_Alias = ''default'', lc_Environment = ''production'',
      lc_BackupDir = ''./pricing-backups'', lc_DryRun = False, lc_AllowMockPricing = False,
      lc_MinCoverage = 95, lc_Timeout = 30 * 60 * 1000000000\<rparr>"

record LifecycleResult =
  lr_Success :: bool
  lr_Phase :: IngestionPhase
  lr_Message :: string
  lr_Error :: string
  lr_Duration :: nat
  lr_SnapshotID :: "uuid option"
  lr_BackupPath :: string
  lr_ContentHash :: string
  lr_RawCount :: int
  lr_NormalizedCount :: int

definition enforceProductionGuards :: "PriceFetcher \<Rightarrow> LifecycleConfig \<Rightarrow> error option" where
  "enforceProductionGuards fetcher config =
     (if lc_Environment config = ''production'' \<and> lc_AllowMockPricing config
        then Some (Err ''FATAL: mock pricing forbidden in production environment'')
      else case f_IsRealAPI fetcher of
             Some isReal \<Rightarrow>
               if \<not> isReal \<and> lc_Environment config = ''production''
               then Some (Err ''FATAL: fetcher is not a real API implementation'')
               else None
           | None \<Rightarrow> None)"

definition phaseFetching ::
  "env \<Rightarrow> LifecycleConfig \<Rightarrow> LifecycleState \<Rightarrow> world \<Rightarrow> error option \<times> LifecycleState \<times> world" where
  "phaseFetching env config st w =
     (let st1 = st\<lparr>ls_Phase := PhaseFetching\<rparr>;
          w1 = emit (EvFetchRegion (lc_Region config)) w
      in case f_FetchRegion (e_fetcher env) (lc_Region config) of
           Inl e \<Rightarrow> (Some (Wrapped ''fetch failed'' e), st1, w1)
         | Inr rawPrices \<Rightarrow>
             if length rawPrices = 0 then (Some (Err ''fetch returned 0 prices''), st1, w1)
             else (None, st1\<lparr>ls_RawPrices := rawPrices\<rparr>, w1))"

definition phaseNormalizing ::
  "env \<Rightarrow> LifecycleConfig \<Rightarrow> LifecycleState \<Rightarrow> world \<Rightarrow> error option \<times> LifecycleState \<times> world" where
  "phaseNormalizing env config st w =
     (let st1 = st\<lparr>ls_Phase := PhaseNormalizing\<rparr>
      in case e_normalizer env (ls_RawPrices st1) of
           Inl e \<Rightarrow> (Some (Wrapped ''normalization failed'' e), st1, w)
         | Inr normalized \<Rightarrow>
             if length normalized = 0 then (Some (Err ''normalization produced 0 rates''), st1, w)
             else (None, st1\<lparr>ls_Normalized := normalized,
                             ls_ContentHash := calculateHash normalized\<rparr>, w))"

text \<open>
  The lookup of the previous snapshot's rate count, shared by the lifecycle and the
  pipeline: both drop the errors of \<^verbatim>\<open>GetActiveSnapshot\<close> and \<^verbatim>\<open>CountRates\<close>.
\<close>

definition previous_rate_count ::
  "env \<Rightarrow> CloudProvider \<Rightarrow> string \<Rightarrow> string \<Rightarrow> world \<Rightarrow> int \<times> world" where
  "previous_rate_count env provider region alias w =
     (let w1 = emit (EvStoreQuery ''GetActiveSnapshot'') w
      in case fst (GetActiveSnapshot (ft_GetActiveSnapshot (e_faults env)) (w_db w1)
                     provider region alias) of
           None \<Rightarrow> (0, w1)
         | Some prevSnapshot \<Rightarrow>
             (fst (CountRates (ft_CountRates (e_faults env)) (w_db w1) (ps_ID prevSnapshot)),
              emit (EvStoreQuery ''CountRates'') w1))"

definition phaseValidating ::
  "env \<Rightarrow> LifecycleConfig \<Rightarrow> LifecycleState \<Rightarrow> world \<Rightarrow> error option \<times> LifecycleState \<times> world" where
  "phaseValidating env config st w =
     (let st1 = st\<lparr>ls_Phase := PhaseValidating\<rparr>;
          validator = SetMinCoveragePercent (lc_MinCoverage config) NewIngestionValidator
      in case previous_rate_count env (lc_Provider config) (lc_Region config) (lc_Alias config) w of
           (prevRateCount, w1) \<Rightarrow> (ValidateAll validator (ls_Normalized st1) prevRateCount, st1, w1))"

definition phaseStaging ::
  "env \<Rightarrow> LifecycleConfig \<Rightarrow> LifecycleState \<Rightarrow> world \<Rightarrow> error option \<times> LifecycleState \<times> world" where
  "phaseStaging env config st w = (None, st\<lparr>ls_Phase := PhaseStaging\<rparr>, w)"

definition verifyBackup :: "LifecycleState \<Rightarrow> string \<Rightarrow> world \<Rightarrow> error option \<times> world" where
  "verifyBackup st path w =
     (let w1 = emit (EvDiskRead path) w
      in if map_of (w_disk w1) path = None then (Some (Err ''backup file does not exist''), w1)
         else case ReadBackup path w1 of
                (Inl e, w2) \<Rightarrow> (Some (Wrapped ''backup read failed'' e), w2)
              | (Inr backup, w2) \<Rightarrow>
                  if sb_ContentHash backup \<noteq> ls_ContentHash st
                  then (Some (Err ''backup hash mismatch''), w2)
                  else (None, w2))"

definition phaseBackup ::
  "env \<Rightarrow> LifecycleConfig \<Rightarrow> LifecycleState \<Rightarrow> world \<Rightarrow> error option \<times> LifecycleState \<times> world" where
  "phaseBackup env config st w =
     (let backup =
            \<lparr>sb_Provider = lc_Provider config, sb_Region = lc_Region config,
             sb_Alias = lc_Alias config, sb_Timestamp = w_clock w,
             sb_ContentHash = ls_ContentHash st, sb_RateCount = int (length (ls_Normalized st)),
             sb_SchemaVersion = ''1.0'', sb_Rates = ls_Normalized st\<rparr>
      in case WriteBackup env (lc_BackupDir config) backup w of
           (Inl e, w1) \<Rightarrow> (Some (Wrapped ''backup failed'' e), st, w1)
         | (Inr backupPath, w1) \<Rightarrow>
             (case verifyBackup st backupPath w1 of
                (Some e, w2) \<Rightarrow> (Some (Wrapped ''backup verification failed'' e), st, w2)
              | (None, w2) \<Rightarrow>
                  (None, st\<lparr>ls_BackupPath := backupPath, ls_BackupHash := ls_ContentHash st,
                              ls_BackupVerified := True, ls_Phase := PhaseBackedUp\<rparr>, w2)))"

definition new_snapshot ::
  "uuid \<Rightarrow> CloudProvider \<Rightarrow> string \<Rightarrow> string \<Rightarrow> string \<Rightarrow> time \<Rightarrow> string \<Rightarrow> PricingSnapshot" where
  "new_snapshot sid provider region alias source now hash =
     \<lparr>ps_ID = sid, ps_Cloud = provider, ps_Region = region, ps_ProviderAlias = alias,
      ps_Source = source, ps_FetchedAt = now, ps_ValidFrom = now, ps_ValidTo = None,
      ps_Hash = hash, ps_Version = ''1.0'', ps_IsActive = False, ps_CreatedAt = 0\<rparr>"

definition commit_step_message :: "commit_step \<Rightarrow> string" where
  "commit_step_message step =
     (case step of StepUpsertRateKey \<Rightarrow> ''failed to upsert rate key''
                 | StepCreateRate \<Rightarrow> ''failed to create rate'')"

text \<open>
  \<^verbatim>\<open>phaseCommitting\<close>.  After \<^verbatim>\<open>BeginTx\<close> the deferred function rolls back unless
  \<^verbatim>\<open>committed\<close> was set, so every error return below passes through \<open>Tx_Rollback\<close>.
\<close>

definition phaseCommitting ::
  "env \<Rightarrow> LifecycleConfig \<Rightarrow> LifecycleState \<Rightarrow> world \<Rightarrow> error option \<times> LifecycleState \<times> world" where
  "phaseCommitting env config st w =
     (let st1 = st\<lparr>ls_Phase := PhaseCommitting\<rparr>; ft = e_faults env
      in if \<not> ls_BackupVerified st1
           then (Some (Err ''FATAL: cannot commit without verified backup''), st1, w)
         else if ls_BackupPath st1 = []
           then (Some (Err ''FATAL: backup path is empty''), st1, w)
         else
           let w1 = emit (EvStoreQuery ''FindSnapshotByHash'') w
           in case fst (FindSnapshotByHash (ft_FindSnapshotByHash ft) (w_db w1) (lc_Provider config)
                          (lc_Region config) (lc_Alias config) (ls_ContentHash st1)) of
                Some existing \<Rightarrow>
                  (None, st1\<lparr>ls_SnapshotID := Some (ps_ID existing), ls_Phase := PhaseActive\<rparr>, w1)
              | None \<Rightarrow>
                  (case uuid_New w1 of (snapshotID, w2) \<Rightarrow>
                   let snapshot = new_snapshot snapshotID (lc_Provider config) (lc_Region config)
                         (lc_Alias config) ''strict_ingestion_lifecycle'' (w_clock w2)
                         (ls_ContentHash st1)
                   in case BeginTx (ft_BeginTx ft) w2 of
                        (Inl e, w3) \<Rightarrow> (Some (Wrapped ''failed to begin transaction'' e), st1, w3)
                      | (Inr txdb, w3) \<Rightarrow>
                          (case PostgresTx_CreateSnapshot (ft_CreateSnapshot ft) (w_clock w3) txdb snapshot of
                             (Some e, txdb1) \<Rightarrow>
                               (Some (Wrapped ''failed to create snapshot'' e), st1,
                                Tx_Rollback (emit (EvTxExec ''CreateSnapshot'') w3))
                           | (None, txdb1) \<Rightarrow>
                               (case insert_rates ft snapshotID 0 (ls_Normalized st1) txdb1
                                       (emit (EvTxExec ''CreateSnapshot'') w3) of
                                  (Some (step, e), txdb2, w4) \<Rightarrow>
                                    (Some (Wrapped (commit_step_message step) e), st1, Tx_Rollback w4)
                                | (None, txdb2, w4) \<Rightarrow>
                                    (case PostgresTx_ActivateSnapshot (ft_Deactivate ft) (ft_Activate ft)
                                            txdb2 snapshotID of
                                       (Some e, txdb3) \<Rightarrow>
                                         (Some (Wrapped ''failed to activate snapshot'' e), st1,
                                          Tx_Rollback (emit (EvTxExec ''ActivateSnapshot'') w4))
                                     | (None, txdb3) \<Rightarrow>
                                         (case Tx_Commit (ft_Commit ft) txdb3
                                                 (emit (EvTxExec ''ActivateSnapshot'') w4) of
                                            (Some e, w5) \<Rightarrow>
                                              (Some (Wrapped ''commit failed'' e), st1, Tx_Rollback w5)
                                          | (None, w5) \<Rightarrow>
                                              (None, st1\<lparr>ls_SnapshotID := Some snapshotID,
                                                          ls_Phase := PhaseActive\<rparr>, w5)))))))"

definition fail ::
  "error \<Rightarrow> LifecycleState \<Rightarrow> world \<Rightarrow> (LifecycleResult \<times> error option) \<times> LifecycleState \<times> world" where
  "fail err st w =
     (let st1 = st\<lparr>ls_Phase := PhaseFailed, ls_Errors := ls_Errors st @ [Error_string err]\<rparr>
      in ((\<lparr>lr_Success = False, lr_Phase = ls_Phase st1, lr_Message = [],
             lr_Error = Error_string err, lr_Duration = w_clock w - ls_StartTime st1,
             lr_SnapshotID = None, lr_BackupPath = ls_BackupPath st1, lr_ContentHash = [],
             lr_RawCount = int (length (ls_RawPrices st1)),
             lr_NormalizedCount = int (length (ls_Normalized st1))\<rparr>, None), st1, w))"

definition success ::
  "string \<Rightarrow> LifecycleState \<Rightarrow> world \<Rightarrow> (LifecycleResult \<times> error option) \<times> LifecycleState \<times> world" where
  "success msg st w =
     ((\<lparr>lr_Success = True, lr_Phase = ls_Phase st, lr_Message = msg, lr_Error = [],
        lr_Duration = w_clock w - ls_StartTime st, lr_SnapshotID = ls_SnapshotID st,
        lr_BackupPath = ls_BackupPath st, lr_ContentHash = ls_ContentHash st,
        lr_RawCount = int (length (ls_RawPrices st)),
        lr_NormalizedCount = int (length (ls_Normalized st))\<rparr>, None), st, w)"

text \<open>
  \<^verbatim>\<open>Lifecycle.Execute\<close>.  The mutex and the deadline context are not modelled as such: a
  run is alone, and a deadline shows as a failure of the next call that takes the context
  (the deferred \<^verbatim>\<open>cancel()\<close> finds no open transaction: \<^verbatim>\<open>phaseCommitting\<close> never returns
  with one).
  The result is the pair the Go function returns, with the final state and world.
  \<open>initial_state\<close> is the state \<^verbatim>\<open>Execute\<close> installs first, \<open>run_phases\<close> the sequence of
  guarded phase calls that follows.
\<close>

definition initial_state :: "LifecycleConfig \<Rightarrow> world \<Rightarrow> LifecycleState" where
  "initial_state config w =
     \<lparr>ls_Phase = PhaseInit, ls_Provider = lc_Provider config, ls_Region = lc_Region config,
      ls_Alias = lc_Alias config, ls_Environment = lc_Environment config, ls_RawPrices = [],
      ls_Normalized = [], ls_ContentHash = [], ls_BackupPath = [], ls_BackupHash = [],
      ls_BackupVerified = False, ls_SnapshotID = None, ls_StartTime = w_clock w,
      ls_Errors = []\<rparr>"

definition run_phases ::
  "env \<Rightarrow> LifecycleConfig \<Rightarrow> LifecycleState \<Rightarrow> world
     \<Rightarrow> (LifecycleResult \<times> error option) \<times> LifecycleState \<times> world" where
  "run_phases env config st0 w =
     (case enforceProductionGuards (e_fetcher env) config of
           Some err \<Rightarrow> fail err st0 w
         | None \<Rightarrow>
       (case phaseFetching env config st0 w of
           (Some err, st1, w1) \<Rightarrow> fail err st1 w1
         | (None, st1, w1) \<Rightarrow>
       (case phaseNormalizing env config st1 w1 of
           (Some err, st2, w2) \<Rightarrow> fail err st2 w2
         | (None, st2, w2) \<Rightarrow>
       (case phaseValidating env config st2 w2 of
           (Some err, st3, w3) \<Rightarrow> fail err st3 w3
         | (None, st3, w3) \<Rightarrow>
       (case phaseStaging env config st3 w3 of
           (Some err, st4, w4) \<Rightarrow> fail err st4 w4
         | (None, st4, w4) \<Rightarrow>
       (case phaseBackup env config st4 w4 of
           (Some err, st5, w5) \<Rightarrow> fail err st5 w5
         | (None, st5, w5) \<Rightarrow>
             if lc_DryRun config
             then success ''dry-run completed, no DB writes'' (st5\<lparr>ls_Phase := PhaseActive\<rparr>) w5
             else (case phaseCommitting env config st5 w5 of
                     (Some err, st6, w6) \<Rightarrow> fail err st6 w6
                   | (None, st6, w6) \<Rightarrow> success ''ingestion complete'' st6 w6)))))))"

definition config_or_default :: "LifecycleConfig option \<Rightarrow> LifecycleConfig" where
  "config_or_default config0 = (case config0 of None \<Rightarrow> DefaultLifecycleConfig | Some c \<Rightarrow> c)"

definition Execute ::
  "env \<Rightarrow> LifecycleConfig option \<Rightarrow> world
     \<Rightarrow> (LifecycleResult \<times> error option) \<times> LifecycleState \<times> world" where
  "Execute env config0 w =
     (let config = config_or_default config0
      in run_phases env config (initial_state config w) w)"

section \<open>Five-phase pipeline (\<^verbatim>\<open>Pipeline\<close>)\<close>

datatype Phase = PhaseFetch | PhaseNormalize | PhaseValidate | PhaseBackup | PhaseCommit

record PipelineConfig =
  pc_Provider :: CloudProvider
  pc_Region :: string
  pc_Alias :: string
  pc_DryRun :: bool
  pc_BackupDir :: string
  pc_MinCoveragePercent :: float64
  pc_Timeout :: nat

definition DefaultPipelineConfig :: PipelineConfig where
  "DefaultPipelineConfig =
     \<lparr>pc_Provider = [], pc_Region = [], pc_Alias = ''default'', pc_DryRun = False,
      pc_BackupDir = ''./pricing-backups'', pc_MinCoveragePercent = 95,
      pc_Timeout = 30 * 60 * 1000000000\<rparr>"

record PipelineStats =
  pst_RawPricesCount :: int
  pst_NormalizedRatesCount :: int
  pst_UniqueServicesCount :: int
  pst_CoveragePercent :: float64
  pst_ContentHash :: string

record PipelineResult =
  res_Success :: bool
  res_SnapshotID :: "uuid option"
  res_PhasesCompleted :: "Phase list"
  res_FailedPhase :: "Phase option"
  res_Error :: string
  res_Stats :: PipelineStats
  res_BackupPath :: string
  res_Duration :: nat

definition countUniqueServices :: "NormalizedRate list \<Rightarrow> int" where
  "countUniqueServices rates = int (length (remdups (map (\<lambda>r. rk_Service (nr_RateKey r)) rates)))"

definition Pipeline_phaseFetch :: "env \<Rightarrow> PipelineConfig \<Rightarrow> world \<Rightarrow> (error + RawPrice list) \<times> world" where
  "Pipeline_phaseFetch env config w =
     (let w1 = emit (EvFetchRegion (pc_Region config)) w
      in case f_FetchRegion (e_fetcher env) (pc_Region config) of
           Inl e \<Rightarrow> (Inl (Wrapped ''fetch failed'' e), w1)
         | Inr rawPrices \<Rightarrow>
             if length rawPrices = 0 then (Inl (Err ''fetch returned 0 prices''), w1)
             else (Inr rawPrices, w1))"

definition Pipeline_phaseNormalize :: "env \<Rightarrow> RawPrice list \<Rightarrow> error + NormalizedRate list" where
  "Pipeline_phaseNormalize env rawPrices =
     (case e_normalizer env rawPrices of
        Inl e \<Rightarrow> Inl (Wrapped ''normalization failed'' e)
      | Inr normalized \<Rightarrow>
          if length normalized = 0 then Inl (Err ''normalization produced 0 rates'')
          else Inr normalized)"

definition Pipeline_phaseValidate ::
  "env \<Rightarrow> PipelineConfig \<Rightarrow> NormalizedRate list \<Rightarrow> world \<Rightarrow> error option \<times> world" where
  "Pipeline_phaseValidate env config rates w =
     (let validator = SetMinCoveragePercent (pc_MinCoveragePercent config) NewIngestionValidator
      in case previous_rate_count env (pc_Provider config) (pc_Region config) (pc_Alias config) w of
           (prevRateCount, w1) \<Rightarrow> (ValidateAll validator rates prevRateCount, w1))"

text \<open>\<^verbatim>\<open>Pipeline.phaseBackup\<close> returns what \<^verbatim>\<open>WriteBackup\<close> returns; nothing reads the file back.\<close>

definition Pipeline_phaseBackup ::
  "env \<Rightarrow> PipelineConfig \<Rightarrow> NormalizedRate list \<Rightarrow> PipelineStats \<Rightarrow> world \<Rightarrow> (error + string) \<times> world" where
  "Pipeline_phaseBackup env config rates stats w =
     WriteBackup env (pc_BackupDir config)
       \<lparr>sb_Provider = pc_Provider config, sb_Region = pc_Region config, sb_Alias = pc_Alias config,
        sb_Timestamp = w_clock w, sb_ContentHash = pst_ContentHash stats,
        sb_RateCount = int (length rates), sb_SchemaVersion = ''1.0'', sb_Rates = rates\<rparr> w"

text \<open>
  \<^verbatim>\<open>Pipeline.phaseCommit\<close>.  Its deferred function is
  \<^verbatim>\<open>func() { if err != nil { tx.Rollback() } }\<close>, where \<^verbatim>\<open>err\<close> is the variable declared by
  \<^verbatim>\<open>tx, err := p.store.BeginTx(ctx)\<close>.  The statements \<^verbatim>\<open>err = tx.CreateSnapshot(...)\<close>,
  \<^verbatim>\<open>err = tx.ActivateSnapshot(...)\<close> and \<^verbatim>\<open>err = tx.Commit()\<close> assign that variable, so their
  error returns pass through \<open>Tx_Rollback\<close>.  Inside the loop body,
  \<^verbatim>\<open>key, err := tx.UpsertRateKey(...)\<close> declares a new \<^verbatim>\<open>err\<close> in the scope of the body, and
  \<^verbatim>\<open>err = tx.CreateRate(...)\<close> assigns that inner variable: on a return from the loop the outer
  \<^verbatim>\<open>err\<close> is still \<^verbatim>\<open>nil\<close> and the deferred function does not call \<^verbatim>\<open>Rollback\<close>.
\<close>

definition Pipeline_phaseCommit ::
  "env \<Rightarrow> PipelineConfig \<Rightarrow> NormalizedRate list \<Rightarrow> string \<Rightarrow> world \<Rightarrow> (uuid \<times> error option) \<times> world" where
  "Pipeline_phaseCommit env config rates contentHash w =
     (let ft = e_faults env; w1 = emit (EvStoreQuery ''FindSnapshotByHash'') w
      in case fst (FindSnapshotByHash (ft_FindSnapshotByHash ft) (w_db w1) (pc_Provider config)
                     (pc_Region config) (pc_Alias config) contentHash) of
           Some existing \<Rightarrow> ((ps_ID existing, None), w1)
         | None \<Rightarrow>
             (case uuid_New w1 of (snapshotID, w2) \<Rightarrow>
              let snapshot = new_snapshot snapshotID (pc_Provider config) (pc_Region config)
                    (pc_Alias config) ''manual_ingestion_pipeline'' (w_clock w2) contentHash
              in case BeginTx (ft_BeginTx ft) w2 of
                   (Inl e, w3) \<Rightarrow> ((0, Some (Wrapped ''failed to begin transaction'' e)), w3)
                 | (Inr txdb, w3) \<Rightarrow>
                     (case PostgresTx_CreateSnapshot (ft_CreateSnapshot ft) (w_clock w3) txdb snapshot of
                        (Some e, txdb1) \<Rightarrow>
                          ((0, Some (Wrapped ''failed to create snapshot'' e)),
                           Tx_Rollback (emit (EvTxExec ''CreateSnapshot'') w3))
                      | (None, txdb1) \<Rightarrow>
                          (case insert_rates ft snapshotID 0 rates txdb1
                                  (emit (EvTxExec ''CreateSnapshot'') w3) of
                             (Some (step, e), txdb2, w4) \<Rightarrow>
                               ((0, Some (Wrapped (commit_step_message step) e)), w4)
                           | (None, txdb2, w4) \<Rightarrow>
                               (case PostgresTx_ActivateSnapshot (ft_Deactivate ft) (ft_Activate ft)
                                       txdb2 snapshotID of
                                  (Some e, txdb3) \<Rightarrow>
                                    ((0, Some (Wrapped ''failed to activate snapshot'' e)),
                                     Tx_Rollback (emit (EvTxExec ''ActivateSnapshot'') w4))
                                | (None, txdb3) \<Rightarrow>
                                    (case Tx_Commit (ft_Commit ft) txdb3
                                            (emit (EvTxExec ''ActivateSnapshot'') w4) of
                                       (Some e, w5) \<Rightarrow>
                                         ((0, Some (Wrapped ''commit failed'' e)), Tx_Rollback w5)
                                     | (None, w5) \<Rightarrow> ((snapshotID, None), w5)))))))"

definition pipeline_failed :: "Phase \<Rightarrow> error \<Rightarrow> PipelineResult \<Rightarrow> PipelineResult" where
  "pipeline_failed phase e result =
     result\<lparr>res_FailedPhase := Some phase, res_Error := Error_string e\<rparr>"

definition pipeline_completed :: "Phase \<Rightarrow> PipelineResult \<Rightarrow> PipelineResult" where
  "pipeline_completed phase result =
     result\<lparr>res_PhasesCompleted := res_PhasesCompleted result @ [phase]\<rparr>"

definition empty_result :: PipelineResult where
  "empty_result =
     \<lparr>res_Success = False, res_SnapshotID = None, res_PhasesCompleted = [], res_FailedPhase = None,
      res_Error = [],
      res_Stats = \<lparr>pst_RawPricesCount = 0, pst_NormalizedRatesCount = 0,
                    pst_UniqueServicesCount = 0, pst_CoveragePercent = 0, pst_ContentHash = []\<rparr>,
      res_BackupPath = [], res_Duration = 0\<rparr>"

text \<open>The five phases of \<^verbatim>\<open>Pipeline.Execute\<close>, in order, each guarded by the one before.\<close>

definition Pipeline_phases ::
  "env \<Rightarrow> PipelineConfig \<Rightarrow> world \<Rightarrow> (PipelineResult \<times> error option) \<times> world" where
  "Pipeline_phases env config w =
     (case Pipeline_phaseFetch env config w of
           (Inl e, w1) \<Rightarrow> ((pipeline_failed PhaseFetch e empty_result, None), w1)
         | (Inr rawPrices, w1) \<Rightarrow>
       (let r1 = (pipeline_completed PhaseFetch empty_result)
                   \<lparr>res_Stats := (res_Stats empty_result)\<lparr>pst_RawPricesCount := int (length rawPrices)\<rparr>\<rparr>
        in case Pipeline_phaseNormalize env rawPrices of
             Inl e \<Rightarrow> ((pipeline_failed PhaseNormalize e r1, None), w1)
           | Inr normalizedRates \<Rightarrow>
       (let r2 = (pipeline_completed PhaseNormalize r1)
                   \<lparr>res_Stats := (res_Stats r1)
                      \<lparr>pst_NormalizedRatesCount := int (length normalizedRates),
                       pst_UniqueServicesCount := countUniqueServices normalizedRates,
                       pst_ContentHash := calculateHash normalizedRates\<rparr>\<rparr>
        in case Pipeline_phaseValidate env config normalizedRates w1 of
             (Some e, w2) \<Rightarrow> ((pipeline_failed PhaseValidate e r2, None), w2)
           | (None, w2) \<Rightarrow>
       (let r3 = pipeline_completed PhaseValidate r2
        in case Pipeline_phaseBackup env config normalizedRates (res_Stats r3) w2 of
             (Inl e, w3) \<Rightarrow> ((pipeline_failed PhaseBackup e r3, None), w3)
           | (Inr backupPath, w3) \<Rightarrow>
       (let r4 = (pipeline_completed PhaseBackup r3)\<lparr>res_BackupPath := backupPath\<rparr>
        in if pc_DryRun config then ((r4\<lparr>res_Success := True\<rparr>, None), w3)
           else case Pipeline_phaseCommit env config normalizedRates
                       (pst_ContentHash (res_Stats r4)) w3 of
                  ((snapshotID, Some e), w4) \<Rightarrow> ((pipeline_failed PhaseCommit e r4, None), w4)
                | ((snapshotID, None), w4) \<Rightarrow>
                    (((pipeline_completed PhaseCommit r4)
                        \<lparr>res_SnapshotID := Some snapshotID, res_Success := True\<rparr>, None), w4))))))"

text \<open>
  \<^verbatim>\<open>Pipeline.Execute\<close>.  With a positive timeout the phases run under
  \<^verbatim>\<open>context.WithTimeout\<close> and the deferred \<^verbatim>\<open>cancel()\<close> ends that context when \<^verbatim>\<open>Execute\<close>
  returns; \<^verbatim>\<open>database/sql\<close> rolls back a transaction that is still open once the context it
  was begun with is done.  With a timeout of 0 the transaction was begun with the caller's
  context and nothing ends it here.
\<close>

definition context_done :: "world \<Rightarrow> world" where
  "context_done w = (if w_tx w = Some TxOpen then w\<lparr>w_tx := Some TxRolledBack\<rparr> else w)"

definition Pipeline_Execute ::
  "env \<Rightarrow> PipelineConfig option \<Rightarrow> world \<Rightarrow> (PipelineResult \<times> error option) \<times> world" where
  "Pipeline_Execute env config0 w =
     (let config = (case config0 of None \<Rightarrow> DefaultPipelineConfig | Some c \<Rightarrow> c)
      in case Pipeline_phases env config w of
           (result, w1) \<Rightarrow> (result, if 0 < pc_Timeout config then context_done w1 else w1))"

section \<open>Streaming variant (\<^verbatim>\<open>StreamingLifecycle\<close>)\<close>

record StreamingConfig =
  sc_BatchSize :: int
  sc_MaxMemoryMB :: int
  sc_WorkDir :: string
  sc_ConcurrentFetches :: int
  sc_EnableCheckpointing :: bool
  sc_GCInterval :: int

text \<open>The presets; \<^verbatim>\<open>os.TempDir()\<close> is taken to be \<^verbatim>\<open>/tmp\<close>.\<close>

definition DefaultStreamingConfig :: StreamingConfig where
  "DefaultStreamingConfig =
     \<lparr>sc_BatchSize = 10000, sc_MaxMemoryMB = 2048, sc_WorkDir = ''/tmp'', sc_ConcurrentFetches = 2,
      sc_EnableCheckpointing = True, sc_GCInterval = 5\<rparr>"

definition LowMemoryConfig :: StreamingConfig where
  "LowMemoryConfig =
     \<lparr>sc_BatchSize = 5000, sc_MaxMemoryMB = 1024, sc_WorkDir = ''/tmp'', sc_ConcurrentFetches = 1,
      sc_EnableCheckpointing = True, sc_GCInterval = 3\<rparr>"

definition HighMemoryConfig :: StreamingConfig where
  "HighMemoryConfig =
     \<lparr>sc_BatchSize = 50000, sc_MaxMemoryMB = 8192, sc_WorkDir = ''/tmp'', sc_ConcurrentFetches = 4,
      sc_EnableCheckpointing = True, sc_GCInterval = 10\<rparr>"

text \<open>
  The fields of \<^verbatim>\<open>StreamingLifecycle\<close> that a run reads back; \<^verbatim>\<open>totalWritten\<close>,
  \<^verbatim>\<open>batchCount\<close> and \<^verbatim>\<open>checkpoint\<close> only feed the progress output.
\<close>

record StreamState =
  ss_totalFetched :: int
  ss_totalNormalized :: int
  ss_tempFiles :: "string list"

definition new_StreamState :: StreamState where
  "new_StreamState = \<lparr>ss_totalFetched = 0, ss_totalNormalized = 0, ss_tempFiles = []\<rparr>"

text \<open>The slices \<^verbatim>\<open>xs[i:end]\<close> that a loop \<^verbatim>\<open>for i := 0; i < len(xs); i += n\<close> visits, for \<open>0 < n\<close>.\<close>

function batches :: "nat \<Rightarrow> 'a list \<Rightarrow> 'a list list" where
  "batches n xs = (if n = 0 \<or> xs = [] then [] else take n xs # batches n (drop n xs))"
  by pat_completeness auto
termination
  by (relation "measure (\<lambda>(n, xs). length xs)") auto

declare batches.simps [simp del]

text \<open>
  The batch loop of \<^verbatim>\<open>streamFetchAndNormalize\<close>: a batch whose normalization fails is logged
  and skipped; after a batch that succeeds, \<^verbatim>\<open>batchNum % s.config.GCInterval\<close> is evaluated,
  which panics when the interval is 0 (\<open>None\<close>).  The result is the rates written to the temp
  file and the number of raw prices counted as fetched.
\<close>

fun normalize_batches :: "PriceNormalizer \<Rightarrow> int \<Rightarrow> RawPrice list list \<Rightarrow> (NormalizedRate list \<times> int) option" where
  "normalize_batches nz gc [] = Some ([], 0)"
| "normalize_batches nz gc (batch # rest) =
     (case nz batch of
        Inl e \<Rightarrow> normalize_batches nz gc rest
      | Inr normalized \<Rightarrow>
          if gc = 0 then None
          else (case normalize_batches nz gc rest of
                  None \<Rightarrow> None
                | Some (rs, n) \<Rightarrow> Some (normalized @ rs, int (length batch) + n)))"

text \<open>
  \<^verbatim>\<open>streamFetchAndNormalize\<close>.  With a batch size of 0 or less and a non-empty fetch the loop
  index never advances or the slice expression panics: the function does not return
  (\<open>None\<close>).  The name of the temp file carries \<^verbatim>\<open>time.Now().UnixNano()\<close>.
\<close>

definition streamFetchAndNormalize ::
  "env \<Rightarrow> StreamingConfig \<Rightarrow> LifecycleConfig \<Rightarrow> StreamState \<Rightarrow> world
     \<Rightarrow> (error option \<times> StreamState \<times> world) option" where
  "streamFetchAndNormalize env sc config ss w =
     (let w1 = emit (EvFetchRegion (lc_Region config)) w
      in case f_FetchRegion (e_fetcher env) (lc_Region config) of
           Inl e \<Rightarrow> Some (Some (Wrapped ''failed to fetch pricing'' e), ss, w1)
         | Inr rawPrices \<Rightarrow>
             let tempFile = filepath_Join (sc_WorkDir sc)
                   (''pricing_'' @ lc_Provider config @ ''_'' @ lc_Region config @ ''_''
                    @ nat_to_string (w_clock w1) @ ''.jsonl.gz'');
                 w2 = emit (EvDiskWrite tempFile) w1
             in if e_create_temp_fails env
                  then Some (Some (Wrapped ''failed to create temp file'' (Err ''open'')), ss, w2)
                else if rawPrices \<noteq> [] \<and> sc_BatchSize sc \<le> 0 then None
                else (case normalize_batches (e_normalizer env) (sc_GCInterval sc)
                             (batches (nat (sc_BatchSize sc)) rawPrices) of
                        None \<Rightarrow> None
                      | Some (rates, fetched) \<Rightarrow>
                          Some (None,
                                ss\<lparr>ss_totalNormalized := ss_totalNormalized ss + int (length rates),
                                   ss_totalFetched := ss_totalFetched ss + fetched,
                                   ss_tempFiles := ss_tempFiles ss @ [tempFile]\<rparr>,
                                w2\<lparr>w_disk := (tempFile, TempFile rates) # w_disk w2\<rparr>)))"

text \<open>\<^verbatim>\<open>readTempFile\<close> for each temp file; a file that cannot be read is logged and skipped.\<close>

fun read_temp_files :: "string list \<Rightarrow> world \<Rightarrow> NormalizedRate list \<times> world" where
  "read_temp_files [] w = ([], w)"
| "read_temp_files (f # fs) w =
     (let w1 = emit (EvDiskRead f) w;
          rates = (case map_of (w_disk w1) f of Some (TempFile rs) \<Rightarrow> rs | _ \<Rightarrow> [])
      in case read_temp_files fs w1 of (others, w2) \<Rightarrow> (rates @ others, w2))"

text \<open>
  \<^verbatim>\<open>mergeAndValidate\<close> builds a validator of its own and calls
  \<^verbatim>\<open>validator.ValidateAll(allRates, 0)\<close>: the previous rate count is the constant 0, and the
  store is not asked for the previous snapshot.
\<close>

definition mergeAndValidate ::
  "LifecycleConfig \<Rightarrow> StreamState \<Rightarrow> world \<Rightarrow> (error + NormalizedRate list) \<times> world" where
  "mergeAndValidate config ss w =
     (case read_temp_files (ss_tempFiles ss) w of
        (allRates, w1) \<Rightarrow>
          let validator = SetMinCoveragePercent (lc_MinCoverage config) NewIngestionValidator
          in case ValidateAll validator allRates 0 of
               Some e \<Rightarrow> (Inl (Wrapped ''validation failed'' e), w1)
             | None \<Rightarrow> (Inr allRates, w1))"

text \<open>\<^verbatim>\<open>writeBackup\<close> returns what \<^verbatim>\<open>WriteBackup\<close> returns; nothing reads the file back.\<close>

definition writeBackup ::
  "env \<Rightarrow> LifecycleConfig \<Rightarrow> NormalizedRate list \<Rightarrow> world \<Rightarrow> (error + string) \<times> world" where
  "writeBackup env config rates w =
     WriteBackup env (lc_BackupDir config)
       \<lparr>sb_Provider = lc_Provider config, sb_Region = lc_Region config, sb_Alias = lc_Alias config,
        sb_Timestamp = w_clock w, sb_ContentHash = calculateHash rates,
        sb_RateCount = int (length rates), sb_SchemaVersion = ''1.0'', sb_Rates = rates\<rparr> w"

text \<open>
  The batch loop of \<^verbatim>\<open>streamCommit\<close>: the rates of a batch are inserted as in the other
  flows; after a batch, \<^verbatim>\<open>(i/batchSize) % s.config.GCInterval\<close> panics when the interval
  is 0.
\<close>

fun commit_batches ::
  "faults \<Rightarrow> int \<Rightarrow> uuid \<Rightarrow> nat \<Rightarrow> NormalizedRate list list \<Rightarrow> database \<Rightarrow> world
     \<Rightarrow> (error option \<times> database \<times> world) option" where
  "commit_batches ft gc snapshotID i [] txdb w = Some (None, txdb, w)"
| "commit_batches ft gc snapshotID i (batch # rest) txdb w =
     (case insert_rates ft snapshotID i batch txdb w of
        (Some (step, e), txdb1, w1) \<Rightarrow> Some (Some e, txdb1, w1)
      | (None, txdb1, w1) \<Rightarrow>
          if gc = 0 then None
          else commit_batches ft gc snapshotID (i + length batch) rest txdb1 w1)"

text \<open>
  \<^verbatim>\<open>streamCommit\<close> starts with \<^verbatim>\<open>uuid.New()\<close> and \<^verbatim>\<open>BeginTx\<close>: it does not call
  \<^verbatim>\<open>FindSnapshotByHash\<close>.  Its deferred function rolls back unless \<^verbatim>\<open>committed\<close> was set.
\<close>

definition streamCommit ::
  "env \<Rightarrow> StreamingConfig \<Rightarrow> LifecycleConfig \<Rightarrow> NormalizedRate list \<Rightarrow> world
     \<Rightarrow> ((uuid \<times> error option) \<times> world) option" where
  "streamCommit env sc config rates w =
     (let ft = e_faults env
      in case uuid_New w of (snapshotID, w1) \<Rightarrow>
         let snapshot = new_snapshot snapshotID (lc_Provider config) (lc_Region config)
               (lc_Alias config) ''streaming_ingestion'' (w_clock w1) (calculateHash rates)
         in case BeginTx (ft_BeginTx ft) w1 of
              (Inl e, w2) \<Rightarrow> Some ((0, Some e), w2)
            | (Inr txdb, w2) \<Rightarrow>
                (case PostgresTx_CreateSnapshot (ft_CreateSnapshot ft) (w_clock w2) txdb snapshot of
                   (Some e, txdb1) \<Rightarrow>
                     Some ((0, Some e), Tx_Rollback (emit (EvTxExec ''CreateSnapshot'') w2))
                 | (None, txdb1) \<Rightarrow>
                     if rates \<noteq> [] \<and> sc_BatchSize sc \<le> 0 then None
                     else
                       (case commit_batches ft (sc_GCInterval sc) snapshotID 0
                               (batches (nat (sc_BatchSize sc)) rates) txdb1
                               (emit (EvTxExec ''CreateSnapshot'') w2) of
                          None \<Rightarrow> None
                        | Some (Some e, txdb2, w3) \<Rightarrow> Some ((0, Some e), Tx_Rollback w3)
                        | Some (None, txdb2, w3) \<Rightarrow>
                            (case PostgresTx_ActivateSnapshot (ft_Deactivate ft) (ft_Activate ft)
                                    txdb2 snapshotID of
                               (Some e, txdb3) \<Rightarrow>
                                 Some ((0, Some e), Tx_Rollback (emit (EvTxExec ''ActivateSnapshot'') w3))
                             | (None, txdb3) \<Rightarrow>
                                 (case Tx_Commit (ft_Commit ft) txdb3
                                         (emit (EvTxExec ''ActivateSnapshot'') w3) of
                                    (Some e, w4) \<Rightarrow> Some ((0, Some e), Tx_Rollback w4)
                                  | (None, w4) \<Rightarrow> Some ((snapshotID, None), w4))))))"

fun remove_files :: "string list \<Rightarrow> world \<Rightarrow> world" where
  "remove_files [] w = w"
| "remove_files (f # fs) w =
     remove_files fs ((emit (EvDiskRemove f) w)\<lparr>w_disk := filter (\<lambda>p. fst p \<noteq> f) (w_disk w)\<rparr>)"

definition cleanup :: "StreamState \<Rightarrow> world \<Rightarrow> StreamState \<times> world" where
  "cleanup ss w = (ss\<lparr>ss_tempFiles := []\<rparr>, remove_files (ss_tempFiles ss) w)"

definition checkpointPath :: "StreamingConfig \<Rightarrow> LifecycleConfig \<Rightarrow> string" where
  "checkpointPath sc config =
     filepath_Join (sc_WorkDir sc)
       (''checkpoint_'' @ lc_Provider config @ ''_'' @ lc_Region config @ ''.json'')"

definition Streaming_fail ::
  "error \<Rightarrow> time \<Rightarrow> StreamState \<times> world \<Rightarrow> (LifecycleResult \<times> error option) \<times> world" where
  "Streaming_fail err startTime sw =
     ((\<lparr>lr_Success = False, lr_Phase = PhaseFailed, lr_Message = [], lr_Error = Error_string err,
        lr_Duration = w_clock (snd sw) - startTime, lr_SnapshotID = None, lr_BackupPath = [],
        lr_ContentHash = [], lr_RawCount = ss_totalFetched (fst sw),
        lr_NormalizedCount = ss_totalNormalized (fst sw)\<rparr>, None), snd sw)"

definition Streaming_success ::
  "uuid option \<Rightarrow> string \<Rightarrow> NormalizedRate list \<Rightarrow> time \<Rightarrow> StreamState \<Rightarrow> world
     \<Rightarrow> (LifecycleResult \<times> error option) \<times> world" where
  "Streaming_success snapshotID backupPath allRates startTime ss w =
     ((\<lparr>lr_Success = True, lr_Phase = PhaseActive, lr_Message = ''streaming ingestion complete'',
        lr_Error = [], lr_Duration = w_clock w - startTime, lr_SnapshotID = snapshotID,
        lr_BackupPath = backupPath, lr_ContentHash = calculateHash allRates,
        lr_RawCount = ss_totalFetched ss, lr_NormalizedCount = int (length allRates)\<rparr>, None), w)"

text \<open>
  \<^verbatim>\<open>StreamingLifecycle.Execute\<close> on a fresh instance; \<open>None\<close> when the run panics or does not
  return.  No production guard is evaluated.
\<close>

definition Streaming_Execute ::
  "env \<Rightarrow> StreamingConfig \<Rightarrow> LifecycleConfig option \<Rightarrow> world
     \<Rightarrow> ((LifecycleResult \<times> error option) \<times> world) option" where
  "Streaming_Execute env sc config0 w =
     (let config = config_or_default config0;
          startTime = w_clock w;
          w0 = (if sc_EnableCheckpointing sc then emit (EvDiskRead (checkpointPath sc config)) w else w)
      in case streamFetchAndNormalize env sc config new_StreamState w0 of
           None \<Rightarrow> None
         | Some (Some err, ss1, w1) \<Rightarrow> Some (Streaming_fail err startTime (cleanup ss1 w1))
         | Some (None, ss1, w1) \<Rightarrow>
       (case mergeAndValidate config ss1 w1 of
           (Inl err, w2) \<Rightarrow> Some (Streaming_fail err startTime (cleanup ss1 w2))
         | (Inr allRates, w2) \<Rightarrow>
       (case writeBackup env config allRates w2 of
           (Inl err, w3) \<Rightarrow>
             Some (Streaming_fail (Wrapped ''backup failed'' err) startTime (cleanup ss1 w3))
         | (Inr backupPath, w3) \<Rightarrow>
             if lc_DryRun config
             then (case cleanup ss1 w3 of (ss2, w4) \<Rightarrow>
                     Some (Streaming_success None backupPath allRates startTime ss2
                             ((emit (EvDiskRemove (checkpointPath sc config)) w4)
                                \<lparr>w_disk := filter (\<lambda>p. fst p \<noteq> checkpointPath sc config) (w_disk w4)\<rparr>)))
             else (case streamCommit env sc config allRates w3 of
                     None \<Rightarrow> None
                   | Some ((sid, Some err), w4) \<Rightarrow>
                       Some (Streaming_fail (Wrapped ''commit failed'' err) startTime
                               (cleanup ss1 w4))
                   | Some ((sid, None), w4) \<Rightarrow>
                       (case cleanup ss1 w4 of (ss2, w5) \<Rightarrow>
                          Some (Streaming_success (Some sid) backupPath allRates startTime ss2
                                  ((emit (EvDiskRemove (checkpointPath sc config)) w5)
                                     \<lparr>w_disk := filter (\<lambda>p. fst p \<noteq> checkpointPath sc config)
                                                  (w_disk w5)\<rparr>)))))))"

section \<open>Concrete runs\<close>

definition one_raw :: RawPrice where
  "one_raw =
     \<lparr>rp_SKU = ''SKU1'', rp_ServiceCode = ''AmazonS3'', rp_ProductFamily = ''Storage'',
      rp_Region = ''us-east-1'', rp_Unit = ''GB-Mo'', rp_PricePerUnit = ''0.023'',
      rp_Currency = ''USD'', rp_Attributes = [(''storageClass'', ''Standard'')],
      rp_TierStart = None, rp_TierEnd = None, rp_EffectiveDate = None\<rparr>"

definition s3_rate :: NormalizedRate where
  "s3_rate =
     \<lparr>nr_RateKey = \<lparr>rk_ID = 0, rk_Cloud = ''aws'', rk_Service = ''AmazonS3'',
                     rk_ProductFamily = ''Storage'', rk_Region = ''us-east-1'',
                     rk_Attributes = [(''storage_class'', ''standard'')], rk_CreatedAt = 0\<rparr>,
      nr_Unit = ''GB-month'', nr_Price = dec 23 (-3), nr_Currency = ''USD'', nr_Confidence = 1,
      nr_TierMin = None, nr_TierMax = None\<rparr>"

definition no_faults :: faults where
  "no_faults =
     \<lparr>ft_GetActiveSnapshot = False, ft_CountRates = False, ft_FindSnapshotByHash = False,
      ft_BeginTx = False, ft_CreateSnapshot = False, ft_UpsertRateKey = (\<lambda>i. False),
      ft_CreateRate = (\<lambda>i. False), ft_Deactivate = False, ft_Activate = False,
      ft_Commit = False\<rparr>"

text \<open>
  A fetcher returning one price and a normalizer returning one rate for it, on a disk
  that stores what is written; \<open>cap\<close> is the fetcher's \<^verbatim>\<open>IsRealAPI\<close> capability.
\<close>

definition simple_env :: "bool option \<Rightarrow> env" where
  "simple_env cap =
     \<lparr>e_fetcher = \<lparr>f_Cloud = ''aws'', f_FetchRegion = (\<lambda>region. Inr [one_raw]), f_IsRealAPI = cap\<rparr>,
      e_normalizer = (\<lambda>raw. Inr [s3_rate]),
      e_faults = no_faults,
      e_write_backup = (\<lambda>b. Stored (BackupFile b)),
      e_create_temp_fails = False,
      e_Format = (\<lambda>t. ''2026-01-01T00-00-00'')\<rparr>"

definition prod_config :: LifecycleConfig where
  "prod_config =
     \<lparr>lc_Provider = ''aws'', lc_Region = ''us-east-1'', lc_Alias = ''default'',
      lc_Environment = ''production'', lc_BackupDir = ''/app/backups'', lc_DryRun = False,
      lc_AllowMockPricing = False, lc_MinCoverage = 95, lc_Timeout = 0\<rparr>"

definition empty_db :: database where
  "empty_db = \<lparr>pricing_snapshots = [], pricing_rate_keys = [], pricing_rates = []\<rparr>"

definition world_of :: "database \<Rightarrow> world" where
  "world_of db = \<lparr>w_db = db, w_tx = None, w_disk = [], w_trace = [], w_uuid = 100, w_clock = 7\<rparr>"

text \<open>A driver that fails the first \<^verbatim>\<open>UpsertRateKey\<close> of a commit, and nothing else.\<close>

definition upsert_fault_env :: env where
  "upsert_fault_env = (simple_env (Some True))\<lparr>e_faults := no_faults\<lparr>ft_UpsertRateKey := (\<lambda>i. i = 0)\<rparr>\<rparr>"

definition pipe_config :: PipelineConfig where
  "pipe_config =
     \<lparr>pc_Provider = ''aws'', pc_Region = ''us-east-1'', pc_Alias = ''default'', pc_DryRun = False,
      pc_BackupDir = ''/app/backups'', pc_MinCoveragePercent = 95, pc_Timeout = 0\<rparr>"

text \<open>A lifecycle state as \<^verbatim>\<open>phaseBackup\<close> leaves it for the one normalized rate.\<close>

definition backed_up_state :: LifecycleState where
  "backed_up_state =
     (initial_state prod_config (world_of empty_db))
       \<lparr>ls_Phase := PhaseBackedUp, ls_RawPrices := [one_raw], ls_Normalized := [s3_rate],
        ls_ContentHash := calculateHash [s3_rate],
        ls_BackupPath := ''/app/backups/aws/us-east-1_2026-01-01T00-00-00.json.gz'',
        ls_BackupHash := calculateHash [s3_rate], ls_BackupVerified := True\<rparr>"

text \<open>A store that already holds an active, ready snapshot with the content hash of the one rate.\<close>

definition db_same_hash :: database where
  "db_same_hash =
     \<lparr>pricing_snapshots =
        [\<lparr>row_snapshot = snap 1 (calculateHash [s3_rate]) True, row_state = ''ready''\<rparr>],
      pricing_rate_keys = [a_key],
      pricing_rates = [a_rate 20 1]\<rparr>"

text \<open>A store whose active snapshot has two rates.\<close>

definition db_two_rates :: database where
  "db_two_rates =
     \<lparr>pricing_snapshots = [\<lparr>row_snapshot = snap 1 ''h1'' True, row_state = ''ready''\<rparr>],
      pricing_rate_keys = [a_key],
      pricing_rates = [a_rate 20 1, (a_rate 21 1)\<lparr>pr_Unit := ''requests''\<rparr>]\<rparr>"

text \<open>A disk on which the backup file ends up unreadable although \<^verbatim>\<open>WriteBackup\<close> returns a path.\<close>

definition bad_disk_env :: env where
  "bad_disk_env = (simple_env (Some True))\<lparr>e_write_backup := (\<lambda>b. Stored Garbage)\<rparr>"

text \<open>A normalizer that yields no rate.\<close>

definition no_rates_env :: env where
  "no_rates_env = (simple_env (Some True))\<lparr>e_normalizer := (\<lambda>raw. Inr [])\<rparr>"

section \<open>What a failed commit may leave behind\<close>

text \<open>
  \<open>commit_failure_safe w err w'\<close>: when a commit function returned the error \<open>err\<close>, the
  committed tables are those of the world \<open>w\<close> it started from and its transaction was not
  committed.  \<open>tx_closed err w'\<close>: when it returned an error, its transaction is not left
  open.
\<close>

definition commit_failure_safe :: "world \<Rightarrow> error option \<Rightarrow> world \<Rightarrow> bool" where
  "commit_failure_safe w err w' =
     (case err of
        None \<Rightarrow> True
      | Some e \<Rightarrow> w_db w' = w_db w \<and> w_tx w' \<noteq> Some TxCommitted)"

definition tx_closed :: "error option \<Rightarrow> world \<Rightarrow> bool" where
  "tx_closed err w' = (case err of None \<Rightarrow> True | Some e \<Rightarrow> w_tx w' \<noteq> Some TxOpen)"

section \<open>What a run reports\<close>

text \<open>
  \<open>first_error rets\<close>: the first non-nil error in a sequence of returned errors, in the
  order of the calls.
\<close>

fun first_error :: "error option list \<Rightarrow> error option" where
  "first_error [] = None"
| "first_error (None # rets) = first_error rets"
| "first_error (Some err # rets) = Some err"

section \<open>Properties\<close>

subsection \<open>Decimal arithmetic is exact\<close>

lemma dec_val_rescale:
  assumes "e \<le> dexp d" shows "dec_val (rescale d e) = dec_val d"
proof (cases "dexp d = e")
  case True then show ?thesis by (simp add: rescale_def)
next
  case False
  with assms have lt: "e < dexp d" by simp
  have "(10::rat) powi (dexp d) = 10 powi ((dexp d - e) + e)" by simp
  also have "\<dots> = 10 powi (dexp d - e) * 10 powi e"
    by (rule power_int_add) simp
  also have "(10::rat) powi (dexp d - e) = 10 ^ nat (dexp d - e)"
    using lt by (simp add: power_int_def)
  finally have "(10::rat) powi (dexp d) = 10 ^ nat (dexp d - e) * 10 powi e" .
  then show ?thesis using lt by (simp add: rescale_def dec_val_def)
qed

lemma RescalePair_props:
  assumes "RescalePair d1 d2 = (r1, r2)"
  shows "dexp r1 = dexp r2" and "dec_val r1 = dec_val d1" and "dec_val r2 = dec_val d2"
proof -
  consider (lt) "dexp d1 < dexp d2" | (gt) "dexp d2 < dexp d1" | (eq) "dexp d1 = dexp d2"
    by linarith
  then have "dexp r1 = dexp r2 \<and> dec_val r1 = dec_val d1 \<and> dec_val r2 = dec_val d2"
  proof cases
    case lt
    then have "r1 = d1" "r2 = rescale d2 (dexp d1)" using assms by (auto simp add: RescalePair_def)
    moreover have "dexp (rescale d2 (dexp d1)) = dexp d1" by (simp add: rescale_def)
    ultimately show ?thesis using lt by (simp add: dec_val_rescale)
  next
    case gt
    then have "r1 = rescale d1 (dexp d2)" "r2 = d2" using assms by (auto simp add: RescalePair_def)
    moreover have "dexp (rescale d1 (dexp d2)) = dexp d2" by (simp add: rescale_def)
    ultimately show ?thesis using gt by (simp add: dec_val_rescale)
  next
    case eq
    then show ?thesis using assms by (simp add: RescalePair_def)
  qed
  then show "dexp r1 = dexp r2" and "dec_val r1 = dec_val d1" and "dec_val r2 = dec_val d2"
    by simp_all
qed

lemma dec_val_Add: "dec_val (dec_Add a b) = dec_val a + dec_val b"
proof -
  obtain r1 r2 where r: "RescalePair a b = (r1, r2)" by (cases "RescalePair a b")
  from RescalePair_props[OF r] show ?thesis
    by (simp add: dec_Add_def r dec_val_def algebra_simps)
qed

lemma dec_val_Sub: "dec_val (dec_Sub a b) = dec_val a - dec_val b"
proof -
  obtain r1 r2 where r: "RescalePair a b = (r1, r2)" by (cases "RescalePair a b")
  from RescalePair_props[OF r] show ?thesis
    by (simp add: dec_Sub_def r dec_val_def algebra_simps)
qed

lemma dec_val_Mul: "dec_val (dec_Mul a b) = dec_val a * dec_val b"
  by (simp add: dec_Mul_def dec_val_def power_int_add)

lemma dec_val_Zero: "dec_val decimal_Zero = 0"
  by (simp add: decimal_Zero_def dec_val_def)

lemma same_exp_less:
  assumes "dexp r1 = dexp r2"
  shows "dvalue r1 < dvalue r2 \<longleftrightarrow> dec_val r1 < dec_val r2"
    and "dvalue r1 = dvalue r2 \<longleftrightarrow> dec_val r1 = dec_val r2"
proof -
  have p: "(0::rat) < 10 powi (dexp r2)" by (rule zero_less_power_int) simp
  show "dvalue r1 < dvalue r2 \<longleftrightarrow> dec_val r1 < dec_val r2"
    using p assms by (simp add: dec_val_def)
  show "dvalue r1 = dvalue r2 \<longleftrightarrow> dec_val r1 = dec_val r2"
    using p assms by (simp add: dec_val_def)
qed

lemma LessThanOrEqual_val: "LessThanOrEqual a b \<longleftrightarrow> dec_val a \<le> dec_val b"
proof -
  obtain r1 r2 where r: "RescalePair a b = (r1, r2)" by (cases "RescalePair a b")
  from RescalePair_props[OF r] same_exp_less[of r1 r2] show ?thesis
    by (auto simp: LessThanOrEqual_def dec_Cmp_def r Let_def)
qed

lemma GreaterThan_val: "GreaterThan a b \<longleftrightarrow> dec_val b < dec_val a"
proof -
  obtain r1 r2 where r: "RescalePair a b = (r1, r2)" by (cases "RescalePair a b")
  from RescalePair_props[OF r] same_exp_less[of r1 r2] show ?thesis
    by (auto simp: GreaterThan_def dec_Cmp_def r)
qed

lemma tier_loop_cost:
  "dec_val (fst (tier_loop tiers totalCost remaining minConfidence)) =
     dec_val totalCost +
     (\<Sum>(a, t) \<leftarrow> zip (spec_allocations (dec_val remaining) tiers) tiers. a * dec_val (tr_Price t))"
proof (induction tiers arbitrary: totalCost remaining minConfidence)
  case Nil
  show ?case by simp
next
  case (Cons tier tiers)
  show ?case
    by (cases "tr_Max tier")
       (simp_all add: Let_def LessThanOrEqual_val GreaterThan_val dec_val_Zero Cons.IH
          dec_val_Add dec_val_Sub dec_val_Mul min_def)
qed

lemma tier_loop_conf:
  "snd (tier_loop tiers totalCost remaining minConfidence) =
     fold min (map tr_Confidence (take (length (spec_allocations (dec_val remaining) tiers)) tiers))
       minConfidence"
proof (induction tiers arbitrary: totalCost remaining minConfidence)
  case Nil
  show ?case by simp
next
  case (Cons tier tiers)
  show ?case
    by (cases "tr_Max tier")
       (simp_all add: Let_def LessThanOrEqual_val GreaterThan_val dec_val_Zero Cons.IH
          dec_val_Sub min_def)
qed

lemma fold_min_Min:
  fixes m :: rat
  shows "fold min xs m = Min (insert m (set xs))"
proof (induction xs arbitrary: m)
  case Nil show ?case by simp
next
  case (Cons x xs)
  have "insert (min x m) (set xs) \<noteq> {}" by simp
  show ?case
    by (simp add: Cons.IH) (metis (no_types, lifting) List.finite_set Min_insert Min_singleton
    min.assoc min.commute)
qed

subsection \<open>Tiered cost\<close>

lemma fold_min_bounded:
  fixes m :: rat
  assumes "xs \<noteq> []" and "\<forall>x \<in> set xs. x \<le> m"
  shows "fold min xs m = Min (set xs)"
proof -
  have "Min (insert m (set xs)) = min m (Min (set xs))"
    using assms(1) by simp
  also have "\<dots> = Min (set xs)"
  proof -
    have "Min (set xs) \<le> m"
      using assms by (metis List.finite_set Min_le hd_in_set order_trans)
    then show ?thesis by (simp add: min_def)
  qed
  finally show ?thesis by (simp add: fold_min_Min)
qed

text \<open>
  C9.  \<^verbatim>\<open>CalculateTieredCost\<close> consumes the tiers in order greedily: the returned cost
  is the sum over the consumed tiers of allocation times price, where a bounded tier is
  allocated \<open>min remaining (max - min)\<close> and an unbounded tier all that remains; the
  returned confidence is the minimum confidence of the consumed tiers (for confidences
  in the data model's range, at most 1, and at least one consumed tier); and for the
  tiers (0, 10, 0.10), (10, unbounded, 0.05) and usage 25 the cost is exactly 1.75.
\<close>

theorem CalculateTieredCost_greedy:
  "dec_val (fst (CalculateTieredCost usage tiers)) = spec_cost usage tiers
   \<and> (consumed_tiers usage tiers \<noteq> [] \<and>
        (\<forall>t \<in> set (consumed_tiers usage tiers). tr_Confidence t \<le> 1) \<longrightarrow>
        snd (CalculateTieredCost usage tiers) =
          Min (tr_Confidence ` set (consumed_tiers usage tiers)))
   \<and> fst (CalculateTieredCost (dec 25 0) example_tiers) = dec 175 (-2)
   \<and> dec_val (dec 175 (-2)) = 175 / 100"
proof (intro conjI impI)
  show "dec_val (fst (CalculateTieredCost usage tiers)) = spec_cost usage tiers"
    by (simp add: CalculateTieredCost_def spec_cost_def tier_loop_cost dec_val_Zero)
next
  assume a: "consumed_tiers usage tiers \<noteq> [] \<and>
    (\<forall>t \<in> set (consumed_tiers usage tiers). tr_Confidence t \<le> 1)"
  then have ne: "tiers \<noteq> []" by (auto simp: consumed_tiers_def)
  let ?cs = "map tr_Confidence (consumed_tiers usage tiers)"
  have "snd (CalculateTieredCost usage tiers) = fold min ?cs 1"
    using ne by (simp add: CalculateTieredCost_def tier_loop_conf consumed_tiers_def)
  also have "\<dots> = Min (set ?cs)"
    using a by (intro fold_min_bounded) auto
  finally show "snd (CalculateTieredCost usage tiers) =
      Min (tr_Confidence ` set (consumed_tiers usage tiers))"
    by simp
next
  show "fst (CalculateTieredCost (dec 25 0) example_tiers) = dec 175 (-2)"
    by (simp add: CalculateTieredCost_def example_tiers_def dec_def decimal_Zero_def
        LessThanOrEqual_def GreaterThan_def dec_Cmp_def RescalePair_def rescale_def
        dec_Sub_def dec_Add_def dec_Mul_def Let_def)
next
  show "dec_val (dec 175 (-2)) = 175 / 100"
    by (simp add: dec_val_def dec_def)
qed

theorem CalculateTieredCost_greedy_witness:
  "consumed_tiers (dec 25 0) witness_tiers = witness_tiers
   \<and> witness_tiers \<noteq> []
   \<and> list_all (\<lambda>t. tr_Confidence t \<le> 1) witness_tiers
   \<and> snd (CalculateTieredCost (dec 25 0) witness_tiers) = 4 / 5"
proof -
  have c: "consumed_tiers (dec 25 0) witness_tiers = witness_tiers"
    by (simp add: consumed_tiers_def witness_tiers_def dec_def dec_val_def)
  have h: "consumed_tiers (dec 25 0) witness_tiers \<noteq> [] \<and>
      (\<forall>t \<in> set (consumed_tiers (dec 25 0) witness_tiers). tr_Confidence t \<le> 1)"
    unfolding c by (simp add: witness_tiers_def)
  from CalculateTieredCost_greedy [of "dec 25 0" witness_tiers] h
  have "snd (CalculateTieredCost (dec 25 0) witness_tiers) =
      Min (tr_Confidence ` set (consumed_tiers (dec 25 0) witness_tiers))"
    by blast
  also have "\<dots> = 4 / 5"
    unfolding c by (simp add: witness_tiers_def)
  finally show ?thesis using h c by (simp add: list_all_iff)
qed

subsection \<open>Snapshot activation and the readers\<close>

lemmas db_eval =
  db_before_activation_def db_tx_activated_def db_sql_activated_def snap_def a_key_def
  a_rate_def row_of_id_def others_active_def in_tuple_def set_active_def dec_def

text \<open>
  C2.  On a table holding an active, ready snapshot 1 and a freshly inserted snapshot 2 of
  the same (cloud, region, alias), \<^verbatim>\<open>PostgresTx.ActivateSnapshot(2)\<close> only flips the
  \<^verbatim>\<open>is_active\<close> flags: snapshot 1 keeps \<^verbatim>\<open>state = 'ready'\<close> and snapshot 2 keeps
  \<^verbatim>\<open>state = 'pending'\<close>.  The SQL function behind \<^verbatim>\<open>PostgresStore.ActivateSnapshot\<close> sets
  \<^verbatim>\<open>'archived'\<close> and \<^verbatim>\<open>'ready'\<close> on the same table.
\<close>

theorem PostgresTx_ActivateSnapshot_keeps_state:
  "PostgresTx_ActivateSnapshot False False db_before_activation 2 = (None, db_tx_activated)
   \<and> map (\<lambda>r. (ps_ID (row_snapshot r), ps_IsActive (row_snapshot r), row_state r))
         (pricing_snapshots db_tx_activated) = [(1, False, ''ready''), (2, True, ''pending'')]
   \<and> PostgresStore_ActivateSnapshot False db_before_activation 2 = (None, db_sql_activated)
   \<and> map (\<lambda>r. (ps_ID (row_snapshot r), ps_IsActive (row_snapshot r), row_state r))
         (pricing_snapshots db_sql_activated) = [(1, False, ''archived''), (2, True, ''ready'')]"
  by (simp add: PostgresTx_ActivateSnapshot_def tx_deactivate_others_def tx_activate_target_def
      PostgresStore_ActivateSnapshot_def activate_snapshot_sql_def db_eval)

text \<open>
  C1.  On the table that \<^verbatim>\<open>PostgresTx.ActivateSnapshot\<close> leaves behind, snapshot 2 is
  active with \<^verbatim>\<open>state = 'pending'\<close>; \<^verbatim>\<open>GetActiveSnapshot\<close> returns it, and \<^verbatim>\<open>ResolveRate\<close>
  and \<^verbatim>\<open>ResolveTieredRates\<close> return its rate: none of the three queries looks at \<^verbatim>\<open>state\<close>.
\<close>

theorem GetActiveSnapshot_returns_pending:
  "map_option row_state (row_of_id db_tx_activated 2) = Some ''pending''
   \<and> GetActiveSnapshot False db_tx_activated ''aws'' ''us-east-1'' ''default''
       = (Some (snap 2 ''h2'' True), None)
   \<and> map_option rr_SnapshotID
        (fst (ResolveRate False db_tx_activated ''aws'' ''AmazonS3'' ''Storage'' ''us-east-1''
               [(''storage_class'', ''standard'')] ''GB-month'' ''default'')) = Some 2
   \<and> map tr_Price
        (fst (ResolveTieredRates False db_tx_activated ''aws'' ''AmazonS3'' ''Storage'' ''us-east-1''
               [(''storage_class'', ''standard'')] ''GB-month'' ''default'')) = [dec 23 (-3)]"
  by (simp add: GetActiveSnapshot_def ResolveRate_def ResolveTieredRates_def resolve_join_def
      order_by_tier_min_def sort_Slice_def db_eval)

subsection \<open>The content hash is 64 hex digits\<close>

lemma length_sha_block: "length hs = 8 \<Longrightarrow> length (sha_block hs b) = 8"
  by (simp add: sha_block_def Let_def split_beta)

lemma length_foldl_sha_block: "length hs = 8 \<Longrightarrow> length (foldl sha_block hs bs) = 8"
  by (induction bs arbitrary: hs) (simp_all add: length_sha_block)

lemma length_concat_word_bytes: "length (concat (map word_bytes ws)) = 4 * length ws"
  by (induction ws) (simp_all add: word_bytes_def)

lemma length_sha256_Sum: "length (sha256_Sum m) = 32"
  by (simp add: sha256_Sum_def length_concat_word_bytes length_foldl_sha_block H256_def)

lemma length_hex_EncodeToString: "length (hex_EncodeToString bs) = 2 * length bs"
  by (induction bs) (simp_all add: hex_EncodeToString_def)

lemma length_calculateHash: "length (calculateHash rates) = 64"
  by (simp add: calculateHash_def Let_def length_hex_EncodeToString length_sha256_Sum)

lemma calculateHash_not_empty: "calculateHash rates \<noteq> []"
  using length_calculateHash [of rates] by auto

lemma calculateHash_neq_short:
  "length s \<noteq> 64 \<Longrightarrow> s \<noteq> calculateHash rates"
  "length s \<noteq> 64 \<Longrightarrow> calculateHash rates \<noteq> s"
  using length_calculateHash [of rates] by auto

subsection \<open>Evaluating concrete runs\<close>

lemmas store_defs =
  GetActiveSnapshot_def FindSnapshotByHash_def CountRates_def in_tuple_def
  PostgresTx_CreateSnapshot_def snapshot_insert_error_def cloud_check_def
  PostgresTx_UpsertRateKey_def same_rate_key_def PostgresTx_CreateRate_def rate_insert_error_def
  same_numeric_def PostgresTx_ActivateSnapshot_def tx_deactivate_others_def
  tx_activate_target_def row_of_id_def others_active_def set_active_def
  BeginTx_def Tx_Commit_def Tx_Rollback_def emit_def uuid_New_def new_snapshot_def
  driver_error_def constraint_violation_def commit_step_message_def

lemmas validator_defs =
  ValidateAll_def ValidatePricesPositive_def ValidateDimensionsComplete_def
  ValidateCoverageNotDecreased_def NewIngestionValidator_def SetMinCoveragePercent_def
  DefaultContracts_def contract_def service_present_def dimension_present_def IsNegative_def
  previous_rate_count_def

lemmas backup_defs =
  WriteBackup_def ReadBackup_def ValidateBackup_def filepath_Join_def strings_HasSuffix_def
  calculateHash_not_empty calculateHash_neq_short

lemmas lifecycle_defs =
  Execute_def config_or_default_def run_phases_def initial_state_def
  enforceProductionGuards_def phaseFetching_def phaseNormalizing_def phaseValidating_def
  phaseStaging_def phaseBackup_def verifyBackup_def phaseCommitting_def fail_def success_def

lemmas example_defs =
  simple_env_def prod_config_def world_of_def empty_db_def no_faults_def s3_rate_def one_raw_def
  dec_def snap_def a_key_def a_rate_def upsert_fault_env_def pipe_config_def
  backed_up_state_def db_same_hash_def db_two_rates_def bad_disk_env_def no_rates_env_def

lemmas streaming_defs =
  Streaming_Execute_def config_or_default_def streamFetchAndNormalize_def mergeAndValidate_def
  writeBackup_def streamCommit_def cleanup_def checkpointPath_def Streaming_fail_def
  Streaming_success_def new_StreamState_def DefaultStreamingConfig_def

lemmas pipeline_defs =
  Pipeline_Execute_def Pipeline_phases_def context_done_def Pipeline_phaseFetch_def Pipeline_phaseNormalize_def
  Pipeline_phaseValidate_def Pipeline_phaseBackup_def Pipeline_phaseCommit_def
  pipeline_failed_def pipeline_completed_def empty_result_def countUniqueServices_def

lemma batches_Nil: "batches n [] = []"
  by (subst batches.simps) simp

lemma batches_single: "0 < n \<Longrightarrow> batches n [x] = [[x]]"
  by (subst batches.simps) (simp add: batches_Nil)

lemma nat_to_string_7: "nat_to_string 7 = ''7''"
  by code_simp

lemmas run_defs =
  store_defs validator_defs backup_defs example_defs batches_Nil batches_single nat_to_string_7
  Let_def

subsection \<open>The lifecycle never returns a Go error\<close>

text \<open>Every return of \<^verbatim>\<open>Execute\<close> goes through \<^verbatim>\<open>fail\<close> or \<^verbatim>\<open>success\<close>.\<close>

lemma run_phases_cases:
  assumes f: "\<And>err st w'. P (fail err st w')"
    and s: "\<And>msg st w'. P (success msg st w')"
  shows "P (run_phases env config st0 w)"
  unfolding run_phases_def
  by (split option.split prod.split if_split | intro conjI allI impI | rule f s)+


lemma success_shape:
  "snd (fst (success msg st w)) = None"
  "lr_Success (fst (fst (success msg st w))) = True"
  "lr_Error (fst (fst (success msg st w))) = []"
  by (simp_all add: success_def)

lemma guard_error_nonempty:
  "enforceProductionGuards fetcher config = Some err \<Longrightarrow> Error_string err \<noteq> []"
  by (auto simp: enforceProductionGuards_def split: if_splits option.splits)

lemma ValidateDimensionsComplete_loop_nonempty:
  "ValidateDimensionsComplete_loop cs rates = Some err \<Longrightarrow> Error_string err \<noteq> []"
  by (induction cs) (auto split: if_splits option.splits)

lemma ValidateAll_error_nonempty:
  "ValidateAll v rates n = Some err \<Longrightarrow> Error_string err \<noteq> []"
  by (auto simp: ValidateAll_def ValidatePricesPositive_def ValidateDimensionsComplete_def
        ValidateCoverageNotDecreased_def Let_def
        dest: ValidateDimensionsComplete_loop_nonempty split: if_splits option.splits)

lemma phase_error_nonempty:
  "fst (phaseFetching env config st w) = Some err \<Longrightarrow> Error_string err \<noteq> []"
  "fst (phaseNormalizing env config st w) = Some err \<Longrightarrow> Error_string err \<noteq> []"
  "fst (phaseValidating env config st w) = Some err \<Longrightarrow> Error_string err \<noteq> []"
  "fst (phaseBackup env config st w) = Some err \<Longrightarrow> Error_string err \<noteq> []"
  "fst (phaseCommitting env config st w) = Some err \<Longrightarrow> Error_string err \<noteq> []"
  by (auto simp: phaseFetching_def phaseNormalizing_def phaseValidating_def phaseBackup_def
        phaseCommitting_def Let_def
        dest: ValidateAll_error_nonempty split: if_splits option.splits sum.splits prod.splits)

lemma phaseStaging_returns_nil: "fst (phaseStaging env config st w) = None"
  by (simp add: phaseStaging_def)

lemma phase_keeps_errors:
  "ls_Errors (fst (snd (phaseFetching env config st w))) = ls_Errors st"
  "ls_Errors (fst (snd (phaseNormalizing env config st w))) = ls_Errors st"
  "ls_Errors (fst (snd (phaseValidating env config st w))) = ls_Errors st"
  "ls_Errors (fst (snd (phaseStaging env config st w))) = ls_Errors st"
  "ls_Errors (fst (snd (phaseBackup env config st w))) = ls_Errors st"
  "ls_Errors (fst (snd (phaseCommitting env config st w))) = ls_Errors st"
  by (auto simp: phaseFetching_def phaseNormalizing_def phaseValidating_def phaseStaging_def
        phaseBackup_def phaseCommitting_def Let_def
        split: if_splits option.splits sum.splits prod.splits)

lemma phaseCommitting_ends_active:
  "fst (phaseCommitting env config st w) = None
     \<Longrightarrow> ls_Phase (fst (snd (phaseCommitting env config st w))) = PhaseActive"
  by (auto simp: phaseCommitting_def Let_def split: if_splits option.splits sum.splits prod.splits)

text \<open>
  C10.  \<^verbatim>\<open>Lifecycle.Execute\<close> returns a nil error on every path, with a result that says what
  happened.  The guard and the phases are called in order, each on the state and the world
  its predecessor left, and the commit only outside a dry run.  If one of these calls
  returns an error, the first such error \<open>err\<close> is what the run reports: \<^verbatim>\<open>Success = false\<close>,
  phase \<^verbatim>\<open>PhaseFailed\<close> in the result and in the state, \<^verbatim>\<open>err.Error()\<close> (never empty) as the
  result's \<^verbatim>\<open>Error\<close> and as the one entry of the state's \<^verbatim>\<open>Errors\<close>, no message and no snapshot
  id.  If none does, the result has \<^verbatim>\<open>Success = true\<close>, phase \<^verbatim>\<open>PhaseActive\<close>, an empty
  \<^verbatim>\<open>Error\<close>, a message, the state's snapshot id, and no error is recorded in the state.  So
  the returned error never tells the two apart, and the result always does.
\<close>

theorem Execute_error_is_nil:
  "let c = config_or_default config;
       r1 = phaseFetching env c (initial_state c w) w;
       r2 = phaseNormalizing env c (fst (snd r1)) (snd (snd r1));
       r3 = phaseValidating env c (fst (snd r2)) (snd (snd r2));
       r4 = phaseStaging env c (fst (snd r3)) (snd (snd r3));
       r5 = phaseBackup env c (fst (snd r4)) (snd (snd r4));
       r6 = phaseCommitting env c (fst (snd r5)) (snd (snd r5));
       out = Execute env config w;
       res = fst (fst out);
       st = fst (snd out)
   in snd (fst out) = None
      \<and> (case first_error
                 ([enforceProductionGuards (e_fetcher env) c, fst r1, fst r2, fst r3, fst r4, fst r5]
                  @ (if lc_DryRun c then [] else [fst r6])) of
            Some err \<Rightarrow>
              lr_Success res = False \<and> lr_Phase res = PhaseFailed
              \<and> lr_Error res = Error_string err \<and> lr_Error res \<noteq> []
              \<and> lr_Message res = [] \<and> lr_SnapshotID res = None
              \<and> ls_Phase st = PhaseFailed \<and> ls_Errors st = [Error_string err]
          | None \<Rightarrow>
              lr_Success res \<and> lr_Phase res = PhaseActive
              \<and> lr_Error res = [] \<and> lr_Message res \<noteq> []
              \<and> lr_SnapshotID res = ls_SnapshotID st
              \<and> ls_Phase st = PhaseActive \<and> ls_Errors st = [])"
proof -
  define c where "c = config_or_default config"
  define st0 where "st0 = initial_state c w"
  obtain e1 st1 w1 where r1: "phaseFetching env c st0 w = (e1, st1, w1)"
    by (cases "phaseFetching env c st0 w")
  obtain e2 st2 w2 where r2: "phaseNormalizing env c st1 w1 = (e2, st2, w2)"
    by (cases "phaseNormalizing env c st1 w1")
  obtain e3 st3 w3 where r3: "phaseValidating env c st2 w2 = (e3, st3, w3)"
    by (cases "phaseValidating env c st2 w2")
  obtain e4 st4 w4 where r4: "phaseStaging env c st3 w3 = (e4, st4, w4)"
    by (cases "phaseStaging env c st3 w3")
  obtain e5 st5 w5 where r5: "phaseBackup env c st4 w4 = (e5, st5, w5)"
    by (cases "phaseBackup env c st4 w4")
  obtain e6 st6 w6 where r6: "phaseCommitting env c st5 w5 = (e6, st6, w6)"
    by (cases "phaseCommitting env c st5 w5")
  have errs0: "ls_Errors st0 = []"
    by (simp add: st0_def initial_state_def)
  have errs1: "ls_Errors st1 = []"
    using phase_keeps_errors(1) [of env c st0 w] r1 errs0 by simp
  have errs2: "ls_Errors st2 = []"
    using phase_keeps_errors(2) [of env c st1 w1] r2 errs1 by simp
  have errs3: "ls_Errors st3 = []"
    using phase_keeps_errors(3) [of env c st2 w2] r3 errs2 by simp
  have errs4: "ls_Errors st4 = []"
    using phase_keeps_errors(4) [of env c st3 w3] r4 errs3 by simp
  have errs5: "ls_Errors st5 = []"
    using phase_keeps_errors(5) [of env c st4 w4] r5 errs4 by simp
  have errs6: "ls_Errors st6 = []"
    using phase_keeps_errors(6) [of env c st5 w5] r6 errs5 by simp
  have e4: "e4 = None"
    using phaseStaging_returns_nil [of env c st3 w3] r4 by simp
  have ne0: "Error_string err \<noteq> []"
    if "enforceProductionGuards (e_fetcher env) c = Some err" for err
    using that by (rule guard_error_nonempty)
  have ne1: "Error_string err \<noteq> []" if "e1 = Some err" for err
    using phase_error_nonempty(1) [of env c st0 w err] r1 that by simp
  have ne2: "Error_string err \<noteq> []" if "e2 = Some err" for err
    using phase_error_nonempty(2) [of env c st1 w1 err] r2 that by simp
  have ne3: "Error_string err \<noteq> []" if "e3 = Some err" for err
    using phase_error_nonempty(3) [of env c st2 w2 err] r3 that by simp
  have ne5: "Error_string err \<noteq> []" if "e5 = Some err" for err
    using phase_error_nonempty(4) [of env c st4 w4 err] r5 that by simp
  have ne6: "Error_string err \<noteq> []" if "e6 = Some err" for err
    using phase_error_nonempty(5) [of env c st5 w5 err] r6 that by simp
  have active: "ls_Phase st6 = PhaseActive" if "e6 = None"
    using phaseCommitting_ends_active [of env c st5 w5] r6 that by simp
  have run: "Execute env config w = run_phases env c st0 w"
    by (simp add: Execute_def c_def st0_def Let_def)
  show ?thesis
    unfolding Let_def c_def [symmetric] st0_def [symmetric] run
    by (cases "enforceProductionGuards (e_fetcher env) c"; cases e1; cases e2; cases e3;
        cases e5; cases e6)
       (simp_all add: run_phases_def r1 r2 r3 r4 r5 r6 e4 fail_def success_def Let_def
          errs0 errs1 errs2 errs3 errs4 errs5 errs6 ne0 ne1 ne2 ne3 ne5 ne6 active)
qed

theorem Execute_error_is_nil_witness:
  "lr_Success (fst (fst (Execute (simple_env (Some False)) (Some prod_config) (world_of empty_db)))) = False
   \<and> lr_Error (fst (fst (Execute (simple_env (Some False)) (Some prod_config) (world_of empty_db))))
       = ''FATAL: fetcher is not a real API implementation''
   \<and> ls_Errors (fst (snd (Execute (simple_env (Some False)) (Some prod_config) (world_of empty_db))))
       = [''FATAL: fetcher is not a real API implementation'']
   \<and> lr_Success (fst (fst (Execute no_rates_env (Some prod_config) (world_of empty_db)))) = False
   \<and> lr_Error (fst (fst (Execute no_rates_env (Some prod_config) (world_of empty_db))))
       = ''normalization produced 0 rates''
   \<and> lr_Success (fst (fst (Execute (simple_env (Some True)) (Some prod_config) (world_of empty_db))))
   \<and> lr_Error (fst (fst (Execute (simple_env (Some True)) (Some prod_config) (world_of empty_db)))) = []
   \<and> lr_Phase (fst (fst (Execute (simple_env (Some True)) (Some prod_config) (world_of empty_db))))
       = PhaseActive"
  using Execute_error_is_nil [of "Some prod_config" "simple_env (Some False)" "world_of empty_db"]
    Execute_error_is_nil [of "Some prod_config" no_rates_env "world_of empty_db"]
    Execute_error_is_nil [of "Some prod_config" "simple_env (Some True)" "world_of empty_db"]
  by (simp add: config_or_default_def initial_state_def enforceProductionGuards_def
        phaseFetching_def phaseNormalizing_def phaseValidating_def phaseStaging_def
        phaseBackup_def verifyBackup_def phaseCommitting_def run_defs cong: let_weak_cong)

subsection \<open>Production guards\<close>






subsection \<open>What the strict lifecycle guarantees\<close>

text \<open>The loop over the rates works on the transaction's copy only.\<close>

lemma insert_rates_keeps_store:
  "w_db (snd (snd (insert_rates ft sid i rates txdb w))) = w_db w"
  "w_tx (snd (snd (insert_rates ft sid i rates txdb w))) = w_tx w"
proof (induction rates arbitrary: i txdb w)
  case Nil
  { case 1 show ?case by simp }
  { case 2 show ?case by simp }
next
  case (Cons nr rest)
  { case 1 show ?case
      by (simp add: uuid_New_def emit_def Cons.IH split: prod.split sum.split option.split) }
  { case 2 show ?case
      by (simp add: uuid_New_def emit_def Cons.IH split: prod.split sum.split option.split) }
qed

lemmas tx_world_defs = uuid_New_def emit_def BeginTx_def Tx_Commit_def Tx_Rollback_def

lemma commit_batches_keeps_store:
  "commit_batches ft gc sid i bs txdb w = Some (r, txdb', w')
     \<Longrightarrow> w_db w' = w_db w \<and> w_tx w' = w_tx w"
proof (induction bs arbitrary: i txdb w)
  case Nil
  then show ?case by simp
next
  case (Cons b bs)
  obtain r1 txdb1 w1 where ir: "insert_rates ft sid i b txdb w = (r1, txdb1, w1)"
    by (cases "insert_rates ft sid i b txdb w") auto
  have keep: "w_db w1 = w_db w" "w_tx w1 = w_tx w"
    using insert_rates_keeps_store [of ft sid i b txdb w] ir by simp_all
  show ?case
  proof (cases r1)
    case None
    with Cons.prems ir have "gc \<noteq> 0"
      and "commit_batches ft gc sid (i + length b) bs txdb1 w1 = Some (r, txdb', w')"
      by (auto split: if_splits)
    with Cons.IH keep show ?thesis by simp
  next
    case (Some se)
    with Cons.prems ir keep show ?thesis by (cases se) auto
  qed
qed

text \<open>
  Whatever fails in \<^verbatim>\<open>Lifecycle.phaseCommitting\<close> or in \<^verbatim>\<open>streamCommit\<close>, the committed
  tables are unchanged and no transaction is left open.  \<^verbatim>\<open>Pipeline.phaseCommit\<close> leaves the
  committed tables unchanged as well; that its transaction is closed does not hold
  (see C3 below).
\<close>

lemma phaseCommitting_failure:
  assumes notx: "w_tx w = None"
  shows "commit_failure_safe w (fst (phaseCommitting env config st w))
           (snd (snd (phaseCommitting env config st w)))
       \<and> tx_closed (fst (phaseCommitting env config st w))
           (snd (snd (phaseCommitting env config st w)))"
  unfolding phaseCommitting_def Let_def
  by (simp add: prod.case_eq_if commit_failure_safe_def tx_closed_def notx tx_world_defs
        insert_rates_keeps_store split: option.split sum.split)

lemma streamCommit_failure:
  assumes notx: "w_tx w = None"
    and run: "streamCommit env sc config rates w = Some ((sid, err), w')"
  shows "commit_failure_safe w err w' \<and> tx_closed err w'"
  using run unfolding streamCommit_def Let_def
  by (auto simp: commit_failure_safe_def tx_closed_def notx tx_world_defs
      split: option.splits sum.splits prod.splits if_splits
      dest!: commit_batches_keeps_store)

lemma Pipeline_phaseCommit_failure:
  assumes notx: "w_tx w = None"
  shows "commit_failure_safe w (snd (fst (Pipeline_phaseCommit env config rates h w)))
           (snd (Pipeline_phaseCommit env config rates h w))"
  unfolding Pipeline_phaseCommit_def Let_def
  by (simp add: prod.case_eq_if commit_failure_safe_def notx tx_world_defs
        insert_rates_keeps_store split: option.split sum.split)

text \<open>
  When the lookup by hash finds a snapshot, \<^verbatim>\<open>Lifecycle.phaseCommitting\<close> and
  \<^verbatim>\<open>Pipeline.phaseCommit\<close> return its id after that one query.
\<close>

lemma phaseCommitting_existing:
  assumes "ls_BackupVerified st" and "ls_BackupPath st \<noteq> []"
    and "fst (FindSnapshotByHash (ft_FindSnapshotByHash (e_faults env)) (w_db w)
               (lc_Provider config) (lc_Region config) (lc_Alias config) (ls_ContentHash st))
         = Some existing"
  shows "phaseCommitting env config st w =
           (None, st\<lparr>ls_Phase := PhaseActive, ls_SnapshotID := Some (ps_ID existing)\<rparr>,
            emit (EvStoreQuery ''FindSnapshotByHash'') w)"
  using assms by (simp add: phaseCommitting_def Let_def emit_def)

lemma Pipeline_phaseCommit_existing:
  assumes "fst (FindSnapshotByHash (ft_FindSnapshotByHash (e_faults env)) (w_db w)
               (pc_Provider config) (pc_Region config) (pc_Alias config) h) = Some existing"
  shows "Pipeline_phaseCommit env config rates h w =
           ((ps_ID existing, None), emit (EvStoreQuery ''FindSnapshotByHash'') w)"
  using assms by (simp add: Pipeline_phaseCommit_def Let_def emit_def)

text \<open>
  \<^verbatim>\<open>Lifecycle.phaseBackup\<close> succeeds only when the file it wrote is on disk, decodes, passes
  \<^verbatim>\<open>ValidateBackup\<close> and carries the content hash of the state; \<^verbatim>\<open>phaseCommitting\<close> refuses a
  state that \<^verbatim>\<open>phaseBackup\<close> did not mark as verified.
\<close>

lemma phaseBackup_verified:
  assumes "phaseBackup env config st w = (None, st', w')"
  shows "\<exists>backup. map_of (w_disk w') (ls_BackupPath st') = Some (BackupFile backup)
           \<and> ValidateBackup backup = None
           \<and> sb_ContentHash backup = ls_ContentHash st
           \<and> ls_BackupVerified st'"
  using assms
  by (auto simp: phaseBackup_def verifyBackup_def ReadBackup_def WriteBackup_def emit_def Let_def
      split: prod.splits sum.splits option.splits if_splits write_outcome.splits disk_file.splits)

lemma phaseCommitting_needs_verified_backup:
  "\<not> ls_BackupVerified st \<Longrightarrow>
     phaseCommitting env config st w =
       (Some (Err ''FATAL: cannot commit without verified backup''),
        st\<lparr>ls_Phase := PhaseCommitting\<rparr>, w)"
  by (simp add: phaseCommitting_def Let_def)

text \<open>
  With a previous rate count \<open>N > 0\<close>, \<^verbatim>\<open>ValidateAll\<close> fails whenever the new count is below
  the floor of \<open>minCoveragePercent\<close> percent of \<open>N\<close>, and whenever there is no rate.
\<close>

lemma ValidateAll_coverage_floor:
  assumes "0 < N"
    and "of_int (int (length rates)) * 100 < v_minCoveragePercent v * of_int N \<or> rates = []"
  shows "ValidateAll v rates N \<noteq> None"
proof -
  have "ValidateCoverageNotDecreased v (int (length rates)) N \<noteq> None"
  proof (cases "rates = []")
    case True
    then show ?thesis by (simp add: ValidateCoverageNotDecreased_def)
  next
    case False
    with assms(2) have lt: "of_int (int (length rates)) * 100 < v_minCoveragePercent v * of_int N"
      by simp
    have pos: "(0::rat) < of_int N" using assms(1) by simp
    have "(of_int (int (length rates)) / of_int N * 100 :: rat) < v_minCoveragePercent v"
      using lt pos by (simp add: field_simps)
    then show ?thesis by (simp add: ValidateCoverageNotDecreased_def Let_def)
  qed
  then show ?thesis
    using assms(1) by (auto simp: ValidateAll_def split: option.splits)
qed

subsection \<open>The commit flows\<close>

text \<open>
  C3.  The driver fails the first \<^verbatim>\<open>UpsertRateKey\<close> of the commit.  \<^verbatim>\<open>Pipeline.phaseCommit\<close>
  returns the error without calling \<^verbatim>\<open>Rollback\<close>: the transaction it began stays open, and
  with a timeout of 0 it is still open when \<^verbatim>\<open>Pipeline.Execute\<close> returns.
  \<^verbatim>\<open>Lifecycle.phaseCommitting\<close> rolls back on the same failure.  The committed tables are
  unchanged in both.
\<close>

theorem Pipeline_phaseCommit_leaves_tx_open:
  "fst (Pipeline_phaseCommit upsert_fault_env pipe_config [s3_rate] (calculateHash [s3_rate])
          (world_of empty_db))
     = (0, Some (Wrapped ''failed to upsert rate key'' driver_error))
   \<and> w_tx (snd (Pipeline_phaseCommit upsert_fault_env pipe_config [s3_rate]
                    (calculateHash [s3_rate]) (world_of empty_db))) = Some TxOpen
   \<and> w_trace (snd (Pipeline_phaseCommit upsert_fault_env pipe_config [s3_rate]
                       (calculateHash [s3_rate]) (world_of empty_db)))
       = [EvStoreQuery ''FindSnapshotByHash'', EvBeginTx, EvTxExec ''CreateSnapshot'',
          EvTxExec ''UpsertRateKey'']
   \<and> w_db (snd (Pipeline_phaseCommit upsert_fault_env pipe_config [s3_rate]
                    (calculateHash [s3_rate]) (world_of empty_db))) = empty_db
   \<and> pc_Timeout pipe_config = 0
   \<and> res_FailedPhase (fst (fst (Pipeline_Execute upsert_fault_env (Some pipe_config)
                                    (world_of empty_db)))) = Some PhaseCommit
   \<and> w_tx (snd (Pipeline_Execute upsert_fault_env (Some pipe_config) (world_of empty_db)))
       = Some TxOpen
   \<and> w_tx (snd (snd (phaseCommitting upsert_fault_env prod_config backed_up_state
                         (world_of empty_db)))) = Some TxRolledBack
   \<and> w_trace (snd (snd (phaseCommitting upsert_fault_env prod_config backed_up_state
                            (world_of empty_db))))
       = [EvStoreQuery ''FindSnapshotByHash'', EvBeginTx, EvTxExec ''CreateSnapshot'',
          EvTxExec ''UpsertRateKey'', EvRollback]"
  by (simp add: pipeline_defs lifecycle_defs run_defs)

text \<open>
  C4.  The store already holds a snapshot with the content hash of the rates.
  \<^verbatim>\<open>streamCommit\<close> does not look it up: it begins a transaction, its insert violates the
  unique constraint on (cloud, region, alias, hash), and the streaming run fails instead of
  returning the existing id.  \<^verbatim>\<open>Lifecycle.phaseCommitting\<close> returns the existing id 1 after
  the one lookup.
\<close>

theorem streamCommit_without_hash_lookup:
  "map_option fst (streamCommit (simple_env (Some True)) DefaultStreamingConfig prod_config
                     [s3_rate] (world_of db_same_hash))
     = Some (0, Some (constraint_violation ''unique_snapshot''))
   \<and> map_option (\<lambda>r. w_trace (snd r))
        (streamCommit (simple_env (Some True)) DefaultStreamingConfig prod_config [s3_rate]
           (world_of db_same_hash))
     = Some [EvBeginTx, EvTxExec ''CreateSnapshot'', EvRollback]
   \<and> map_option (\<lambda>r. (lr_Success (fst (fst r)), lr_SnapshotID (fst (fst r))))
        (Streaming_Execute (simple_env (Some True)) DefaultStreamingConfig (Some prod_config)
           (world_of db_same_hash))
     = Some (False, None)
   \<and> fst (phaseCommitting (simple_env (Some True)) prod_config backed_up_state
             (world_of db_same_hash)) = None
   \<and> ls_SnapshotID (fst (snd (phaseCommitting (simple_env (Some True)) prod_config
                                  backed_up_state (world_of db_same_hash)))) = Some 1
   \<and> w_trace (snd (snd (phaseCommitting (simple_env (Some True)) prod_config backed_up_state
                            (world_of db_same_hash))))
       = [EvStoreQuery ''FindSnapshotByHash'']"
  by (simp add: streaming_defs lifecycle_defs run_defs)

text \<open>
  C5.  \<^verbatim>\<open>WriteBackup\<close> returns a path but the file on disk does not decode.  The streaming
  run and the pipeline run never read the file back: both succeed and commit the
  snapshot.  The strict lifecycle reads it back, fails with phase \<^verbatim>\<open>PhaseFailed\<close>, and does
  not touch the store.
\<close>

theorem Streaming_Execute_skips_backup_verification:
  "map_option (\<lambda>r. (lr_Success (fst (fst r)), lr_SnapshotID (fst (fst r)), w_tx (snd r),
                     map (\<lambda>s. ps_ID (row_snapshot s)) (pricing_snapshots (w_db (snd r))),
                     w_disk (snd r)))
     (Streaming_Execute bad_disk_env DefaultStreamingConfig (Some prod_config) (world_of empty_db))
     = Some (True, Some 100, Some TxCommitted, [100],
             [(''/app/backups/aws/us-east-1_2026-01-01T00-00-00.json.gz'', Garbage)])
   \<and> res_Success (fst (fst (Pipeline_Execute bad_disk_env (Some pipe_config) (world_of empty_db))))
       = True
   \<and> w_tx (snd (Pipeline_Execute bad_disk_env (Some pipe_config) (world_of empty_db)))
       = Some TxCommitted
   \<and> lr_Success (fst (fst (Execute bad_disk_env (Some prod_config) (world_of empty_db)))) = False
   \<and> lr_Phase (fst (fst (Execute bad_disk_env (Some prod_config) (world_of empty_db))))
       = PhaseFailed
   \<and> filter is_db_event (w_trace (snd (snd (Execute bad_disk_env (Some prod_config)
                                                (world_of empty_db)))))
       = [EvStoreQuery ''GetActiveSnapshot'']"
  by (simp add: streaming_defs pipeline_defs lifecycle_defs run_defs)

text \<open>
  C7.  The active snapshot has two rates and the new ingest has one (50 percent, floor 95).
  The streaming run validates with a previous count of 0: it succeeds, commits snapshot
  100, and snapshot 1 is no longer active.  With a normalizer that yields no rate the
  streaming run commits a snapshot with 0 rates.  The strict lifecycle fails both inputs.
\<close>

theorem Streaming_Execute_skips_coverage_floor:
  "fst (CountRates False db_two_rates 1) = 2
   \<and> map_option (\<lambda>r. (lr_Success (fst (fst r)), lr_NormalizedCount (fst (fst r)),
                        map (\<lambda>s. (ps_ID (row_snapshot s), ps_IsActive (row_snapshot s)))
                          (pricing_snapshots (w_db (snd r)))))
        (Streaming_Execute (simple_env (Some True)) DefaultStreamingConfig (Some prod_config)
           (world_of db_two_rates))
     = Some (True, 1, [(1, False), (100, True)])
   \<and> map_option (\<lambda>r. (lr_Success (fst (fst r)), lr_NormalizedCount (fst (fst r)),
                        map (\<lambda>s. (ps_ID (row_snapshot s), ps_IsActive (row_snapshot s)))
                          (pricing_snapshots (w_db (snd r))),
                        pricing_rates (w_db (snd r))))
        (Streaming_Execute no_rates_env DefaultStreamingConfig (Some prod_config)
           (world_of empty_db))
     = Some (True, 0, [(100, True)], [])
   \<and> lr_Error (fst (fst (Execute (simple_env (Some True)) (Some prod_config)
                             (world_of db_two_rates)))) = ''coverage decreased''
   \<and> w_db (snd (snd (Execute (simple_env (Some True)) (Some prod_config)
                         (world_of db_two_rates)))) = db_two_rates
   \<and> lr_Error (fst (fst (Execute no_rates_env (Some prod_config) (world_of empty_db))))
       = ''normalization produced 0 rates''"
  by (simp add: streaming_defs lifecycle_defs run_defs)

text \<open>
  In general: the SQL function archives every other active row of the target's
  (cloud, region, alias) and makes the target active and ready, while the two statements of
  \<^verbatim>\<open>PostgresTx.ActivateSnapshot\<close> leave the \<^verbatim>\<open>state\<close> of every row as it was; and what
  \<^verbatim>\<open>GetActiveSnapshot\<close> returns does not depend on the \<^verbatim>\<open>state\<close> column.
\<close>

lemma activate_snapshot_sql_rows:
  assumes "row_of_id db sid = Some target"
  shows "pricing_snapshots (activate_snapshot_sql sid db) =
           map (\<lambda>r. if ps_ID (row_snapshot r) = sid
                     then (set_active True r)\<lparr>row_state := ''ready''\<rparr>
                     else if others_active target sid r
                     then (set_active False r)\<lparr>row_state := ''archived''\<rparr>
                     else r)
             (pricing_snapshots db)"
  using assms
  by (auto simp: activate_snapshot_sql_def Let_def others_active_def set_active_def)

lemma PostgresTx_ActivateSnapshot_keeps_every_state:
  "map row_state (pricing_snapshots (snd (PostgresTx_ActivateSnapshot fault1 fault2 db sid)))
     = map row_state (pricing_snapshots db)"
  by (auto simp: PostgresTx_ActivateSnapshot_def tx_deactivate_others_def tx_activate_target_def
        set_active_def Let_def split: option.splits)

lemma find_ignores_state:
  "find (\<lambda>r. P (row_snapshot r)) (map (row_state_update f) rows)
     = map_option (row_state_update f) (find (\<lambda>r. P (row_snapshot r)) rows)"
  by (induction rows) simp_all

lemma GetActiveSnapshot_ignores_state:
  "GetActiveSnapshot fault (db\<lparr>pricing_snapshots := map (row_state_update f) (pricing_snapshots db)\<rparr>)
       cloud region alias
     = GetActiveSnapshot fault db cloud region alias"
proof -
  let ?P = "\<lambda>s. (ps_Cloud s = cloud \<and> ps_Region s = region \<and> ps_ProviderAlias s = alias)
               \<and> ps_IsActive s"
  have "find (\<lambda>r. ?P (row_snapshot r)) (map (row_state_update f) (pricing_snapshots db))
      = map_option (row_state_update f) (find (\<lambda>r. ?P (row_snapshot r)) (pricing_snapshots db))"
    by (rule find_ignores_state)
  then show ?thesis
    by (simp add: GetActiveSnapshot_def in_tuple_def split: option.splits)
qed

subsection \<open>Content hash\<close>

lemma calculateHash_tiers_ab:
  "calculateHash [tier_rate_a, tier_rate_b] =
     ''1ecfb4de784644d79c5a5ee81052e47a161119989e00546534862ff2e6967aae''"
  by code_simp

lemma calculateHash_tiers_ba:
  "calculateHash [tier_rate_b, tier_rate_a] =
     ''8b4a0524ec5c62c992cf9d54e98d471545168cc6ab5f642888ee73e86eb4621a''"
  by code_simp

text \<open>
  C6.  The content hash is not invariant under reordering: \<^verbatim>\<open>calculateHash\<close> sorts by
  \<^verbatim>\<open>rateKeyString\<close> alone, so two rates that share a rate key and differ in price stay in
  their input order, and the two orders of the same two tiers hash differently.
\<close>

theorem calculateHash_depends_on_order:
  "mset [tier_rate_b, tier_rate_a] = mset [tier_rate_a, tier_rate_b]
   \<and> rateKeyString (nr_RateKey tier_rate_a) = rateKeyString (nr_RateKey tier_rate_b)
   \<and> calculateHash [tier_rate_b, tier_rate_a] \<noteq> calculateHash [tier_rate_a, tier_rate_b]"
proof (intro conjI)
  show "mset [tier_rate_b, tier_rate_a] = mset [tier_rate_a, tier_rate_b]"
    by (simp add: add_mset_commute)
  show "rateKeyString (nr_RateKey tier_rate_a) = rateKeyString (nr_RateKey tier_rate_b)"
    by (simp add: tier_rate_a_def tier_rate_b_def)
  show "calculateHash [tier_rate_b, tier_rate_a] \<noteq> calculateHash [tier_rate_a, tier_rate_b]"
    unfolding calculateHash_tiers_ab calculateHash_tiers_ba by simp
qed

end
